theory Spec2Isabelle
  imports Complex_Main "HOL-Library.Char_ord" "HOL-Library.List_Lexorder"
begin

section \<open>Python values and built-ins used by the server\<close>

text \<open>
  A decoded JSON document as the Python program sees it: \<open>None\<close>, \<open>bool\<close>, \<open>int\<close>,
  \<open>str\<close>, \<open>list\<close> and \<open>dict\<close> with string keys. A dict is an association list that
  is read with \<open>map_of\<close>. JSON numbers with a fraction or an exponent (Python floats)
  are outside this model. A string is a list of code points below 256 (the first two
  blocks of Unicode, Basic Latin and Latin-1 Supplement): a \<open>char\<close> with value \<open>n\<close> is the
  code point \<open>n\<close>. Strings with a code point above 255 are outside this model.
\<close>

datatype json =
    JNull
  | JBool bool
  | JInt int
  | JStr string
  | JList "json list"
  | JDict "(string \<times> json) list"

text \<open>Exceptions (subclasses of \<open>Exception\<close>) with the data the handlers read.
  \<open>JIRAError status_code text rendering\<close>: the last field is \<open>str(e)\<close>.\<close>

datatype exn =
    JIRAError int string string
  | ValueError string
  | TypeError string
  | AttributeError string
  | KeyError string
  | ZeroDivisionError string
  | OtherError string

fun exn_str :: "exn \<Rightarrow> string" where
  "exn_str (JIRAError code txt rendering) = rendering"
| "exn_str (ValueError m) = m"
| "exn_str (TypeError m) = m"
| "exn_str (AttributeError m) = m"
| "exn_str (KeyError m) = m"
| "exn_str (ZeroDivisionError m) = m"
| "exn_str (OtherError m) = m"

fun truthy :: "json \<Rightarrow> bool" where
  "truthy JNull = False"
| "truthy (JBool b) = b"
| "truthy (JInt n) = (n \<noteq> 0)"
| "truthy (JStr s) = (s \<noteq> [])"
| "truthy (JList xs) = (xs \<noteq> [])"
| "truthy (JDict kvs) = (kvs \<noteq> [])"

fun type_name :: "json \<Rightarrow> string" where
  "type_name JNull = ''NoneType''"
| "type_name (JBool b) = ''bool''"
| "type_name (JInt n) = ''int''"
| "type_name (JStr s) = ''str''"
| "type_name (JList xs) = ''list''"
| "type_name (JDict kvs) = ''dict''"

subsection \<open>Characters and strings\<close>

text \<open>
  \<open>str.lower()\<close> on code points below 256: the letters \<open>A\<close> to \<open>Z\<close> and the Latin-1 capitals
  \<open>0xC0\<close> to \<open>0xDE\<close>, the multiplication sign \<open>0xD7\<close> apart, move up by 32.
\<close>

definition lower_char :: "char \<Rightarrow> char" where
  "lower_char c = (let n = (of_char c :: nat) in
     if (65 \<le> n \<and> n \<le> 90) \<or> (192 \<le> n \<and> n \<le> 222 \<and> n \<noteq> 215)
     then char_of (n + 32) else c)"

definition lower :: "string \<Rightarrow> string" where
  "lower s = map lower_char s"

text \<open>
  \<open>str.upper()\<close> on code points below 256: the letters \<open>a\<close> to \<open>z\<close> and the Latin-1 small
  letters \<open>0xE0\<close> to \<open>0xFE\<close>, the division sign \<open>0xF7\<close> apart, move down by 32, and the sharp
  s \<open>0xDF\<close> becomes \<open>SS\<close>. The upper-case forms of the micro sign \<open>0xB5\<close> (U+039C) and of
  \<open>0xFF\<close> (U+0178) are above 255: \<open>upper_char\<close> leaves these two as they are, and
  \<open>upper_in_range\<close> says that a string has neither, so that \<open>upper\<close> is \<open>str.upper()\<close> on it.
\<close>

definition upper_char :: "char \<Rightarrow> string" where
  "upper_char c = (let n = (of_char c :: nat) in
     if n = 223 then ''SS''
     else if (97 \<le> n \<and> n \<le> 122) \<or> (224 \<le> n \<and> n \<le> 254 \<and> n \<noteq> 247)
     then [char_of (n - 32)] else [c])"

definition upper :: "string \<Rightarrow> string" where
  "upper s = concat (map upper_char s)"

definition upper_in_range :: "string \<Rightarrow> bool" where
  "upper_in_range s = (CHR 0xB5 \<notin> set s \<and> CHR 0xFF \<notin> set s)"

text \<open>\<open>sep.join(xs)\<close>\<close>

fun join :: "string \<Rightarrow> string list \<Rightarrow> string" where
  "join sep [] = []"
| "join sep [x] = x"
| "join sep (x # y # ys) = x @ sep @ join sep (y # ys)"

text \<open>\<open>needle in haystack\<close> on two strings.\<close>

fun is_substring :: "string \<Rightarrow> string \<Rightarrow> bool" where
  "is_substring needle [] = (needle = [])"
| "is_substring needle (c # cs) =
     (take (length needle) (c # cs) = needle \<or> is_substring needle cs)"

subsection \<open>Decimal rendering and parsing of integers\<close>

definition digit_char :: "nat \<Rightarrow> char" where
  "digit_char d = char_of (48 + d)"

fun nat_str :: "nat \<Rightarrow> string" where
  "nat_str n = (if n < 10 then [digit_char n] else nat_str (n div 10) @ [digit_char (n mod 10)])"

declare nat_str.simps [simp del]

definition int_str :: "int \<Rightarrow> string" where
  "int_str i = (if i < 0 then CHR ''-'' # nat_str (nat (- i)) else nat_str (nat i))"

text \<open>
  \<open>int(s)\<close> for a string, base 10. White space around the literal is skipped: the ASCII
  white space \<open>9\<close> to \<open>13\<close> and \<open>32\<close>, and the two Unicode spaces \<open>0x85\<close> and \<open>0xA0\<close>, which the
  interpreter turns into blanks first.
\<close>

definition is_space :: "char \<Rightarrow> bool" where
  "is_space c = ((of_char c :: nat) \<in> {9, 10, 11, 12, 13, 32, 133, 160})"

definition is_digit :: "char \<Rightarrow> bool" where
  "is_digit c = (48 \<le> (of_char c :: nat) \<and> (of_char c :: nat) \<le> 57)"

definition digit_val :: "char \<Rightarrow> nat" where
  "digit_val c = (of_char c :: nat) - 48"

definition strip :: "string \<Rightarrow> string" where
  "strip s = rev (dropWhile is_space (rev (dropWhile is_space s)))"

text \<open>Digits in groups: a single underscore may separate two digits.\<close>

fun well_grouped :: "string \<Rightarrow> bool" where
  "well_grouped [] = False"
| "well_grouped [c] = is_digit c"
| "well_grouped (c # d # ds) =
     (is_digit c \<and> (if d = CHR ''_'' then well_grouped ds else well_grouped (d # ds)))"

text \<open>The interpreter's limit on the number of digits of a decimal literal.\<close>

definition max_str_digits :: nat where
  "max_str_digits = 4300"

datatype literal = Literal int | Invalid | TooManyDigits nat

text \<open>
  After the white space and one optional sign, the interpreter scans the digits and
  underscores; it refuses a run that is not well grouped, then a run with more digits
  than the limit, then anything left after the run.
\<close>

definition int_of_string :: "string \<Rightarrow> literal" where
  "int_of_string s =
     (let body = strip s;
          negative = (body \<noteq> [] \<and> hd body = CHR ''-'');
          unsigned = (if body \<noteq> [] \<and> (hd body = CHR ''-'' \<or> hd body = CHR ''+'') then tl body else body);
          run = takeWhile (\<lambda>c. is_digit c \<or> c = CHR ''_'') unsigned;
          rest = dropWhile (\<lambda>c. is_digit c \<or> c = CHR ''_'') unsigned;
          digits = filter is_digit run;
          n = int (foldl (\<lambda>acc c. 10 * acc + digit_val c) 0 digits)
      in if \<not> well_grouped run then Invalid
         else if max_str_digits < length digits then TooManyDigits (length digits)
         else if rest \<noteq> [] then Invalid
         else Literal (if negative then - n else n))"

subsection \<open>\<open>repr\<close> and \<open>str\<close>\<close>

definition hex_digit :: "nat \<Rightarrow> char" where
  "hex_digit d = (if d < 10 then char_of (48 + d) else char_of (87 + d))"

definition repr_char :: "char \<Rightarrow> char \<Rightarrow> string" where
  "repr_char q c = (let n = (of_char c :: nat) in
     if c = q \<or> c = CHR 0x5C then [CHR 0x5C, c]
     else if n = 9 then [CHR 0x5C, CHR ''t'']
     else if n = 10 then [CHR 0x5C, CHR ''n'']
     else if n = 13 then [CHR 0x5C, CHR ''r'']
     else if n < 32 \<or> (127 \<le> n \<and> n \<le> 160) \<or> n = 173
          then [CHR 0x5C, CHR ''x'', hex_digit (n div 16), hex_digit (n mod 16)]
     else [c])"

definition repr_string :: "string \<Rightarrow> string" where
  "repr_string s = (let q = (if CHR 0x27 \<in> set s \<and> CHR 0x22 \<notin> set s then CHR 0x22 else CHR 0x27)
     in q # concat (map (repr_char q) s) @ [q])"

fun py_repr :: "json \<Rightarrow> string"
  and py_repr_items :: "json list \<Rightarrow> string list"
  and py_repr_pairs :: "(string \<times> json) list \<Rightarrow> string list" where
  "py_repr JNull = ''None''"
| "py_repr (JBool b) = (if b then ''True'' else ''False'')"
| "py_repr (JInt n) = int_str n"
| "py_repr (JStr s) = repr_string s"
| "py_repr (JList xs) = ''['' @ join '', '' (py_repr_items xs) @ '']''"
| "py_repr (JDict kvs) = ''{'' @ join '', '' (py_repr_pairs kvs) @ ''}''"
| "py_repr_items [] = []"
| "py_repr_items (x # xs) = py_repr x # py_repr_items xs"
| "py_repr_pairs [] = []"
| "py_repr_pairs ((k, v) # kvs) = (repr_string k @ '': '' @ py_repr v) # py_repr_pairs kvs"

text \<open>\<open>str(v)\<close>, also what an f-string puts for \<open>{v}\<close>.\<close>

definition py_str :: "json \<Rightarrow> string" where
  "py_str v = (case v of JStr s \<Rightarrow> s | _ \<Rightarrow> py_repr v)"

subsection \<open>Operations that can raise\<close>

text \<open>\<open>int(v)\<close>\<close>

definition py_int :: "json \<Rightarrow> exn + int" where
  "py_int v = (case v of
       JInt n \<Rightarrow> Inr n
     | JBool b \<Rightarrow> Inr (if b then 1 else 0)
     | JStr s \<Rightarrow> (case int_of_string s of
           Literal n \<Rightarrow> Inr n
         | Invalid \<Rightarrow> Inl (ValueError
             (''invalid literal for int() with base 10: '' @ take 200 (repr_string s)))
         | TooManyDigits n \<Rightarrow> Inl (ValueError
             (''Exceeds the limit (4300 digits) for integer string conversion: value has ''
              @ nat_str n @ '' digits; use sys.set_int_max_str_digits() to increase the limit'')))
     | _ \<Rightarrow> Inl (TypeError (''int() argument must be a string, a bytes-like object or a real number, not '' @ repr_string (type_name v))))"

text \<open>\<open>a // b\<close> on integers: floor division, as \<open>div\<close> on \<open>int\<close>.\<close>

definition floordiv :: "int \<Rightarrow> int \<Rightarrow> exn + int" where
  "floordiv a b = (if b = 0 then Inl (ZeroDivisionError ''integer division or modulo by zero'')
     else Inr (a div b))"

definition dict_get :: "(string \<times> json) list \<Rightarrow> string \<Rightarrow> json \<Rightarrow> json" where
  "dict_get kvs k dflt = (case map_of kvs k of Some v \<Rightarrow> v | None \<Rightarrow> dflt)"

text \<open>\<open>obj.get(k, dflt)\<close>: only a dict has the method.\<close>

definition py_get :: "json \<Rightarrow> string \<Rightarrow> json \<Rightarrow> exn + json" where
  "py_get obj k dflt = (case obj of
       JDict kvs \<Rightarrow> Inr (dict_get kvs k dflt)
     | _ \<Rightarrow> Inl (AttributeError (repr_string (type_name obj) @ '' object has no attribute '' @ repr_string ''get'')))"

text \<open>\<open>k in obj\<close> for a string \<open>k\<close>.\<close>

definition py_in :: "string \<Rightarrow> json \<Rightarrow> exn + bool" where
  "py_in k obj = (case obj of
       JDict kvs \<Rightarrow> Inr (map_of kvs k \<noteq> None)
     | JList xs \<Rightarrow> Inr (JStr k \<in> set xs)
     | JStr s \<Rightarrow> Inr (is_substring k s)
     | _ \<Rightarrow> Inl (TypeError (''argument of type '' @ repr_string (type_name obj) @ '' is not iterable'')))"

text \<open>\<open>obj[k]\<close> for a string \<open>k\<close> that the caller has found in \<open>obj\<close>.\<close>

definition py_getitem :: "json \<Rightarrow> string \<Rightarrow> exn + json" where
  "py_getitem obj k = (case obj of
       JDict kvs \<Rightarrow> (case map_of kvs k of
           Some v \<Rightarrow> Inr v
         | None \<Rightarrow> Inl (KeyError (repr_string k)))
     | JList xs \<Rightarrow> Inl (TypeError ''list indices must be integers or slices, not str'')
     | JStr s \<Rightarrow> Inl (TypeError (''string indices must be integers, not '' @ repr_string ''str''))
     | _ \<Rightarrow> Inl (TypeError (repr_string (type_name obj) @ '' object is not subscriptable'')))"

text \<open>\<open>v.lower()\<close> and \<open>v.upper()\<close>: only a string has the methods.\<close>

definition py_lower :: "json \<Rightarrow> exn + string" where
  "py_lower v = (case v of
       JStr s \<Rightarrow> Inr (lower s)
     | _ \<Rightarrow> Inl (AttributeError (repr_string (type_name v) @ '' object has no attribute '' @ repr_string ''lower'')))"

definition py_upper :: "json \<Rightarrow> exn + string" where
  "py_upper v = (case v of
       JStr s \<Rightarrow> Inr (upper s)
     | _ \<Rightarrow> Inl (AttributeError (repr_string (type_name v) @ '' object has no attribute '' @ repr_string ''upper'')))"

text \<open>\<open>all(k in data for k in ks)\<close>: stops at the first key that is not there.\<close>

fun all_in :: "string list \<Rightarrow> json \<Rightarrow> exn + bool" where
  "all_in [] data = Inr True"
| "all_in (k # ks) data = (case py_in k data of
       Inl e \<Rightarrow> Inl e
     | Inr b \<Rightarrow> if b then all_in ks data else Inr False)"

text \<open>A string between double quotes, as the f-strings of the queries write it.\<close>

definition quoted :: "string \<Rightarrow> string" where
  "quoted s = CHR 0x22 # s @ [CHR 0x22]"

section \<open>The issue tracker client\<close>

text \<open>
  The objects of the client library, with the attributes the handlers read. An optional
  attribute that the handler renders with \<open>str(x) if x else None\<close> is a
  \<open>string option\<close>: its rendering when it is there.
\<close>

record issue =
  i_key :: string
  i_id :: string
  i_self :: string
  i_summary :: string
  i_description :: "string option"
  i_status :: string
  i_created :: string
  i_updated :: string
  i_assignee :: "string option"
  i_reporter :: "string option"
  i_priority :: "string option"
  i_project_key :: string
  i_project_name :: string
  i_issuetype :: string
  i_subtask :: bool
  i_duedate :: "string option"

text \<open>One entry of \<open>jira.transitions(issue)\<close>: \<open>t['id']\<close>, \<open>t['name']\<close>, \<open>t['to']['name']\<close>.\<close>

record transition =
  t_id :: string
  t_name :: string
  t_to :: string

text \<open>The result of \<open>jira.search_issues\<close>: a list with the attribute \<open>total\<close>.\<close>

record result_list =
  rl_issues :: "issue list"
  rl_total :: int

text \<open>The calls a handler makes on the client, in the order it makes them.\<close>

datatype api_call =
    CreateIssue "(string \<times> json) list"
  | GetIssue json
  | GetTransitions issue
  | TransitionIssue issue string
  | UpdateIssue issue "(string \<times> json) list"
  | SearchIssues string int int

fun mutating :: "api_call \<Rightarrow> bool" where
  "mutating (CreateIssue flds) = True"
| "mutating (TransitionIssue i tid) = True"
| "mutating (UpdateIssue i flds) = True"
| "mutating (GetIssue k) = False"
| "mutating (GetTransitions i) = False"
| "mutating (SearchIssues jql start_at max_results) = False"

text \<open>
  The tracker is outside the program: what it answers is a parameter, a function of the
  calls made so far and of the arguments of the call.
\<close>

record jira_api =
  jira_create_issue :: "api_call list \<Rightarrow> (string \<times> json) list \<Rightarrow> exn + issue"
  jira_issue :: "api_call list \<Rightarrow> json \<Rightarrow> exn + issue"
  jira_transitions :: "api_call list \<Rightarrow> issue \<Rightarrow> exn + transition list"
  jira_transition_issue :: "api_call list \<Rightarrow> issue \<Rightarrow> string \<Rightarrow> exn + unit"
  jira_update_fields :: "api_call list \<Rightarrow> issue \<Rightarrow> (string \<times> json) list \<Rightarrow> exn + unit"
  jira_search_issues :: "api_call list \<Rightarrow> string \<Rightarrow> int \<Rightarrow> int \<Rightarrow> exn + result_list"

record JiraConfig =
  server :: string
  user :: string
  token :: string
  timeout :: int
  max_results :: int

record MCPJiraServer =
  config :: JiraConfig
  jira :: jira_api

subsection \<open>Computations that call the tracker and can raise\<close>

type_synonym 'a io = "api_call list \<Rightarrow> (exn + 'a) \<times> api_call list"

definition io_return :: "'a \<Rightarrow> 'a io" where
  "io_return x = (\<lambda>calls. (Inr x, calls))"

definition io_lift :: "exn + 'a \<Rightarrow> 'a io" where
  "io_lift r = (\<lambda>calls. (r, calls))"

definition io_bind :: "'a io \<Rightarrow> ('a \<Rightarrow> 'b io) \<Rightarrow> 'b io" where
  "io_bind m f = (\<lambda>calls. case m calls of
       (Inl e, calls') \<Rightarrow> (Inl e, calls')
     | (Inr x, calls') \<Rightarrow> f x calls')"

text \<open>\<open>try: m except Exception as e: h e\<close>\<close>

definition io_try :: "'a io \<Rightarrow> (exn \<Rightarrow> 'a io) \<Rightarrow> 'a io" where
  "io_try m h = (\<lambda>calls. case m calls of
       (Inl e, calls') \<Rightarrow> h e calls'
     | (Inr x, calls') \<Rightarrow> (Inr x, calls'))"

definition call_create_issue :: "jira_api \<Rightarrow> (string \<times> json) list \<Rightarrow> issue io" where
  "call_create_issue j flds = (\<lambda>calls. (jira_create_issue j calls flds, calls @ [CreateIssue flds]))"

definition call_issue :: "jira_api \<Rightarrow> json \<Rightarrow> issue io" where
  "call_issue j k = (\<lambda>calls. (jira_issue j calls k, calls @ [GetIssue k]))"

definition call_transitions :: "jira_api \<Rightarrow> issue \<Rightarrow> transition list io" where
  "call_transitions j i = (\<lambda>calls. (jira_transitions j calls i, calls @ [GetTransitions i]))"

definition call_transition_issue :: "jira_api \<Rightarrow> issue \<Rightarrow> string \<Rightarrow> unit io" where
  "call_transition_issue j i tid = (\<lambda>calls. (jira_transition_issue j calls i tid, calls @ [TransitionIssue i tid]))"

definition call_update :: "jira_api \<Rightarrow> issue \<Rightarrow> (string \<times> json) list \<Rightarrow> unit io" where
  "call_update j i flds = (\<lambda>calls. (jira_update_fields j calls i flds, calls @ [UpdateIssue i flds]))"

definition call_search_issues :: "jira_api \<Rightarrow> string \<Rightarrow> int \<Rightarrow> int \<Rightarrow> result_list io" where
  "call_search_issues j jql start_at max_res =
     (\<lambda>calls. (jira_search_issues j calls jql start_at max_res, calls @ [SearchIssues jql start_at max_res]))"

section \<open>Response envelopes\<close>

definition error_envelope :: "string \<Rightarrow> json" where
  "error_envelope m = JDict [(''status'', JStr ''error''), (''message'', JStr m)]"

definition success_data :: "json \<Rightarrow> json" where
  "success_data d = JDict [(''status'', JStr ''success''), (''data'', d)]"

definition success_message :: "string \<Rightarrow> json" where
  "success_message m = JDict [(''status'', JStr ''success''), (''message'', JStr m)]"

definition opt_str :: "string option \<Rightarrow> json" where
  "opt_str x = (case x of None \<Rightarrow> JNull | Some s \<Rightarrow> JStr s)"

definition pagination :: "int \<Rightarrow> int \<Rightarrow> int \<Rightarrow> int \<Rightarrow> json" where
  "pagination tot page page_size total_pages = JDict
     [(''total'', JInt tot), (''page'', JInt page), (''page_size'', JInt page_size),
      (''total_pages'', JInt total_pages)]"

section \<open>The command handlers\<close>

subsection \<open>\<open>_create_issue\<close>\<close>

definition create_issue :: "MCPJiraServer \<Rightarrow> json \<Rightarrow> json io" where
  "create_issue srv message =
     io_bind (io_lift (py_get message ''data'' (JDict []))) (\<lambda>data.
     io_bind (io_lift (all_in [''project'', ''summary'', ''description''] data)) (\<lambda>present.
     if \<not> present then io_return (error_envelope ''Missing required fields'')
     else
       io_bind (io_lift (py_getitem data ''project'')) (\<lambda>project.
       io_bind (io_lift (py_getitem data ''summary'')) (\<lambda>summary.
       io_bind (io_lift (py_getitem data ''description'')) (\<lambda>description.
       io_bind (io_lift (py_get data ''issue_type'' (JStr ''Task''))) (\<lambda>issue_type.
       let issue_dict =
             [(''project'', JDict [(''key'', project)]),
              (''summary'', summary),
              (''description'', description),
              (''issuetype'', JDict [(''name'', issue_type)])]
       in
       io_bind (io_lift (py_get data ''issue_type'' JNull)) (\<lambda>requested_type.
       io_bind (if requested_type = JStr ''Subtask''
                then io_lift (py_get data ''parent_issue'' JNull)
                else io_return JNull) (\<lambda>parent.
       io_bind (if requested_type = JStr ''Subtask'' \<and> truthy parent
                then io_bind (io_lift (py_getitem data ''parent_issue'')) (\<lambda>parent_issue.
                       io_return (issue_dict @ [(''parent'', JDict [(''key'', parent_issue)])]))
                else io_return issue_dict) (\<lambda>issue_dict.
       io_bind (call_create_issue (jira srv) issue_dict) (\<lambda>issue.
       io_return (success_data (JDict
         [(''issue_key'', JStr (i_key issue)),
          (''issue_id'', JStr (i_id issue)),
          (''self'', JStr (i_self issue))]))))))))))))"

subsection \<open>\<open>_get_issue\<close>\<close>

definition get_issue :: "MCPJiraServer \<Rightarrow> json \<Rightarrow> json io" where
  "get_issue srv message =
     io_bind (io_lift (py_get message ''data'' (JDict []))) (\<lambda>data.
     io_bind (io_lift (py_get data ''issue_key'' JNull)) (\<lambda>issue_key.
     if \<not> truthy issue_key then io_return (error_envelope ''Missing issue key'')
     else
       io_bind (call_issue (jira srv) issue_key) (\<lambda>issue.
       io_return (success_data (JDict
         [(''issue_key'', JStr (i_key issue)),
          (''summary'', JStr (i_summary issue)),
          (''description'', opt_str (i_description issue)),
          (''status'', JStr (i_status issue))])))))"

subsection \<open>\<open>_update_issue\<close>\<close>

text \<open>
  The loop over the transitions: it adds every destination name it visits to
  \<open>available_transitions\<close> and stops at the first one that equals the target, with the id
  of that transition.
\<close>

fun scan_transitions :: "transition list \<Rightarrow> string \<Rightarrow> string list \<Rightarrow> string option \<times> string list" where
  "scan_transitions [] target_status available_transitions = (None, available_transitions)"
| "scan_transitions (t # ts) target_status available_transitions =
     (let available_transitions = available_transitions @ [t_to t] in
      if lower (t_to t) = target_status then (Some (t_id t), available_transitions)
      else scan_transitions ts target_status available_transitions)"

definition update_issue :: "MCPJiraServer \<Rightarrow> json \<Rightarrow> json io" where
  "update_issue srv message =
     io_bind (io_lift (py_get message ''data'' (JDict []))) (\<lambda>data.
     io_bind (io_lift (py_get data ''issue_key'' JNull)) (\<lambda>issue_key.
     if \<not> truthy issue_key then io_return (error_envelope ''Missing issue key'')
     else
       io_bind (io_lift (py_in ''summary'' data)) (\<lambda>has_summary.
       io_bind (if has_summary
                then io_bind (io_lift (py_getitem data ''summary'')) (\<lambda>v. io_return [(''summary'', v)])
                else io_return []) (\<lambda>update_fields.
       io_bind (io_lift (py_in ''description'' data)) (\<lambda>has_description.
       io_bind (if has_description
                then io_bind (io_lift (py_getitem data ''description'')) (\<lambda>v.
                       io_return (update_fields @ [(''description'', v)]))
                else io_return update_fields) (\<lambda>update_fields.
       io_bind (call_issue (jira srv) issue_key) (\<lambda>issue.
       let finish =
             io_bind (if update_fields \<noteq> [] then call_update (jira srv) issue update_fields
                      else io_return ()) (\<lambda>_.
             io_return (success_message (''Updated issue '' @ py_str issue_key)))
       in
       io_bind (io_lift (py_in ''status'' data)) (\<lambda>has_status.
       if has_status then
         io_bind (call_transitions (jira srv) issue) (\<lambda>transitions.
         io_bind (io_lift (py_getitem data ''status'')) (\<lambda>status.
         io_bind (io_lift (py_lower status)) (\<lambda>target_status.
         case scan_transitions transitions target_status [] of
           (transition_id, available_transitions) \<Rightarrow>
             let no_transition = io_return (error_envelope
                   (''No transition found to status: '' @ py_str status @ ''. ''
                    @ ''Available status transitions are: '' @ join '', '' available_transitions))
             in
             (case transition_id of
                None \<Rightarrow> no_transition
              | Some tid \<Rightarrow>
                  if tid \<noteq> []
                  then io_bind (call_transition_issue (jira srv) issue tid) (\<lambda>_. finish)
                  else no_transition))))
       else finish))))))))"

subsection \<open>The \<open>except\<close> clauses of the three paginated handlers\<close>

fun on_error :: "exn \<Rightarrow> json io" where
  "on_error (JIRAError status_code txt rendering) =
     io_return (error_envelope (''JIRA API error: '' @ int_str status_code @ '' - '' @ txt))"
| "on_error (ValueError m) = io_return (error_envelope (''Invalid input: '' @ m))"
| "on_error e = io_return (error_envelope ''An unexpected error occurred'')"

subsection \<open>\<open>_search_issues\<close>\<close>

definition search_row :: "issue \<Rightarrow> json" where
  "search_row i = JDict
     [(''key'', JStr (i_key i)),
      (''summary'', JStr (i_summary i)),
      (''description'', opt_str (i_description i)),
      (''status'', JStr (i_status i)),
      (''created'', JStr (i_created i)),
      (''updated'', JStr (i_updated i)),
      (''assignee'', opt_str (i_assignee i))]"

text \<open>The query of lines 203 to 206.\<close>

definition search_jql :: "json \<Rightarrow> json \<Rightarrow> string" where
  "search_jql title_only search_text =
     (if truthy title_only
      then ''summary ~ '' @ quoted (py_str search_text) @ '' AND issuetype != Epic''
      else ''(summary ~ '' @ quoted (py_str search_text) @ '' OR description ~ ''
           @ quoted (py_str search_text) @ '') AND issuetype != Epic'')"

definition search_issues :: "MCPJiraServer \<Rightarrow> json \<Rightarrow> json io" where
  "search_issues srv message =
     io_bind (io_lift (py_get message ''data'' (JDict []))) (\<lambda>data.
     io_bind (io_lift (py_get data ''search_text'' JNull)) (\<lambda>search_text.
     io_bind (io_lift (py_get data ''title_only'' (JBool False))) (\<lambda>title_only.
     io_bind (io_lift (py_get data ''page'' (JInt 1))) (\<lambda>page_arg.
     io_bind (io_lift (py_int page_arg)) (\<lambda>page_int.
     let page = max 1 page_int in
     io_bind (io_lift (py_get data ''page_size'' (JInt 20))) (\<lambda>page_size_arg.
     io_bind (io_lift (py_int page_size_arg)) (\<lambda>page_size_int.
     let page_size = min (max_results (config srv)) page_size_int in
     if \<not> truthy search_text then io_return (error_envelope ''Missing search text'')
     else
       io_try
         (let jql = search_jql title_only search_text;
              start_at = (page - 1) * page_size
          in
          io_bind (call_search_issues (jira srv) jql start_at page_size) (\<lambda>found.
          let results = map search_row (rl_issues found) in
          io_bind (io_lift (floordiv (rl_total found + page_size - 1) page_size)) (\<lambda>total_pages.
          io_return (success_data (JDict
            [(''issues'', JList results),
             (''pagination'', pagination (rl_total found) page page_size total_pages)])))))
         on_error)))))))"

subsection \<open>\<open>_get_epic_with_subtasks\<close>\<close>

text \<open>\<open>next((e for e in epics if e.fields.summary.lower() == name), dflt)\<close>\<close>

fun pick_epic :: "issue list \<Rightarrow> string \<Rightarrow> issue \<Rightarrow> issue" where
  "pick_epic [] name dflt = dflt"
| "pick_epic (e # es) name dflt =
     (if lower (i_summary e) = name then e else pick_epic es name dflt)"

definition epic_block :: "issue \<Rightarrow> json" where
  "epic_block epic = JDict
     [(''key'', JStr (i_key epic)),
      (''summary'', JStr (i_summary epic)),
      (''description'', opt_str (i_description epic)),
      (''status'', JStr (i_status epic)),
      (''created'', JStr (i_created epic)),
      (''updated'', JStr (i_updated epic)),
      (''assignee'', opt_str (i_assignee epic)),
      (''reporter'', opt_str (i_reporter epic)),
      (''priority'', opt_str (i_priority epic))]"

definition subtask_row :: "issue \<Rightarrow> json" where
  "subtask_row task = JDict
     [(''key'', JStr (i_key task)),
      (''summary'', JStr (i_summary task)),
      (''description'', opt_str (i_description task)),
      (''status'', JStr (i_status task)),
      (''issuetype'', JStr (i_issuetype task)),
      (''created'', JStr (i_created task)),
      (''updated'', JStr (i_updated task)),
      (''assignee'', opt_str (i_assignee task)),
      (''priority'', opt_str (i_priority task))]"

text \<open>The queries of lines 276 and 292.\<close>

definition epic_jql :: "json \<Rightarrow> string" where
  "epic_jql epic_name = ''issuetype = Epic AND (summary ~ '' @ quoted (py_str epic_name)
     @ '' OR summary = '' @ quoted (py_str epic_name) @ '')''"

definition subtasks_jql :: "issue \<Rightarrow> string" where
  "subtasks_jql epic = quoted ''Epic Link'' @ '' = '' @ i_key epic @ '' ORDER BY created DESC''"

definition get_epic_with_subtasks :: "MCPJiraServer \<Rightarrow> json \<Rightarrow> json io" where
  "get_epic_with_subtasks srv message =
     io_bind (io_lift (py_get message ''data'' (JDict []))) (\<lambda>data.
     io_bind (io_lift (py_get data ''epic_name'' JNull)) (\<lambda>epic_name.
     io_bind (io_lift (py_get data ''page'' (JInt 1))) (\<lambda>page_arg.
     io_bind (io_lift (py_int page_arg)) (\<lambda>page_int.
     let page = max 1 page_int in
     io_bind (io_lift (py_get data ''page_size'' (JInt 20))) (\<lambda>page_size_arg.
     io_bind (io_lift (py_int page_size_arg)) (\<lambda>page_size_int.
     let page_size = min (max_results (config srv)) page_size_int in
     if \<not> truthy epic_name then io_return (error_envelope ''Missing epic name'')
     else
       io_try
         (io_bind (call_search_issues (jira srv) (epic_jql epic_name) 0 5) (\<lambda>epics.
          case rl_issues epics of
            [] \<Rightarrow> io_return (error_envelope
                   (''No epic found with name containing '' @ quoted (py_str epic_name)))
          | first_epic # _ \<Rightarrow>
              io_bind (io_lift (py_lower epic_name)) (\<lambda>wanted.
              let epic = pick_epic (rl_issues epics) wanted first_epic;
                  start_at = (page - 1) * page_size
              in
              io_bind (call_search_issues (jira srv) (subtasks_jql epic) start_at page_size) (\<lambda>subtasks.
              io_bind (io_lift (floordiv (rl_total subtasks + page_size - 1) page_size)) (\<lambda>total_pages.
              io_return (success_data (JDict
                [(''epic'', epic_block epic),
                 (''subtasks'', JDict
                    [(''issues'', JList (map subtask_row (rl_issues subtasks))),
                     (''pagination'', pagination (rl_total subtasks) page page_size total_pages)])])))))))
         on_error))))))"

subsection \<open>\<open>_get_my_issues\<close>\<close>

definition my_issue_row :: "issue \<Rightarrow> json" where
  "my_issue_row i = JDict
     [(''key'', JStr (i_key i)),
      (''summary'', JStr (i_summary i)),
      (''description'', opt_str (i_description i)),
      (''status'', JStr (i_status i)),
      (''created'', JStr (i_created i)),
      (''updated'', JStr (i_updated i)),
      (''priority'', opt_str (i_priority i)),
      (''project'', JDict [(''key'', JStr (i_project_key i)), (''name'', JStr (i_project_name i))]),
      (''issuetype'', JDict [(''name'', JStr (i_issuetype i)), (''subtask'', JBool (i_subtask i))]),
      (''duedate'', opt_str (i_duedate i))]"

definition sort_fields :: "json list" where
  "sort_fields = [JStr ''created'', JStr ''updated'', JStr ''priority'', JStr ''status'', JStr ''duedate'']"

text \<open>The query of lines 369 to 380.\<close>

definition my_issues_jql :: "json \<Rightarrow> json \<Rightarrow> json \<Rightarrow> string \<Rightarrow> string" where
  "my_issues_jql status project sort_by sort_order =
     (let jql_parts = [''assignee = currentUser()'']
            @ (if truthy status then [''status = '' @ quoted (py_str status)] else [])
            @ (if truthy project then [''project = '' @ quoted (py_str project)] else []);
          jql = join '' AND '' jql_parts
      in if sort_by \<in> set sort_fields
         then jql @ '' ORDER BY '' @ py_str sort_by @ '' '' @ sort_order
         else jql)"

definition get_my_issues :: "MCPJiraServer \<Rightarrow> json \<Rightarrow> json io" where
  "get_my_issues srv message =
     io_try
       (io_bind (io_lift (py_get message ''data'' (JDict []))) (\<lambda>data.
        io_bind (io_lift (py_get data ''page'' (JInt 1))) (\<lambda>page_arg.
        io_bind (io_lift (py_int page_arg)) (\<lambda>page_int.
        let page = max 1 page_int in
        io_bind (io_lift (py_get data ''page_size'' (JInt 20))) (\<lambda>page_size_arg.
        io_bind (io_lift (py_int page_size_arg)) (\<lambda>page_size_int.
        let page_size = min (max_results (config srv)) page_size_int in
        io_bind (io_lift (py_get data ''status'' JNull)) (\<lambda>status.
        io_bind (io_lift (py_get data ''project'' JNull)) (\<lambda>project.
        io_bind (io_lift (py_get data ''sort_by'' (JStr ''updated''))) (\<lambda>sort_by.
        io_bind (io_lift (py_get data ''sort_order'' (JStr ''DESC''))) (\<lambda>sort_order_arg.
        io_bind (io_lift (py_upper sort_order_arg)) (\<lambda>sort_order.
        let jql = my_issues_jql status project sort_by sort_order;
            start_at = (page - 1) * page_size
        in
        io_bind (call_search_issues (jira srv) jql start_at page_size) (\<lambda>found.
        let results = map my_issue_row (rl_issues found) in
        io_bind (io_lift (floordiv (rl_total found + page_size - 1) page_size)) (\<lambda>total_pages.
        io_return (success_data (JDict
          [(''issues'', JList results),
           (''pagination'', pagination (rl_total found) page page_size total_pages)])))))))))))))))
       on_error"

subsection \<open>\<open>_get_transitions\<close>\<close>

definition transition_row :: "string \<Rightarrow> transition \<Rightarrow> json" where
  "transition_row current_status t = JDict
     [(''id'', JStr (t_id t)),
      (''name'', JStr (t_name t)),
      (''from_status'', JStr current_status),
      (''to_status'', JStr (t_to t))]"

definition get_transitions :: "MCPJiraServer \<Rightarrow> json \<Rightarrow> json io" where
  "get_transitions srv message =
     io_bind (io_lift (py_get message ''data'' (JDict []))) (\<lambda>data.
     io_bind (io_lift (py_get data ''issue_key'' JNull)) (\<lambda>issue_key.
     if \<not> truthy issue_key then io_return (error_envelope ''Missing issue key'')
     else
       io_bind (call_issue (jira srv) issue_key) (\<lambda>issue.
       io_bind (call_transitions (jira srv) issue) (\<lambda>transitions.
       let current_status = i_status issue;
           next_possible = sort (remdups (map t_to transitions))
       in
       io_return (success_data (JDict
         [(''issue_key'', issue_key),
          (''current_status'', JStr current_status),
          (''available_transitions'', JDict
             [(''current'', JStr current_status),
              (''possible_next_statuses'', JList (map JStr next_possible)),
              (''details'', JList (map (transition_row current_status) transitions))])]))))))"

section \<open>The dispatcher\<close>

definition dispatch :: "MCPJiraServer \<Rightarrow> json \<Rightarrow> json io" where
  "dispatch srv message =
     io_bind (io_lift (py_get message ''command'' JNull)) (\<lambda>command.
     if \<not> truthy command then io_return (error_envelope ''No command specified'')
     else if command = JStr ''create_issue'' then create_issue srv message
     else if command = JStr ''get_issue'' then get_issue srv message
     else if command = JStr ''update_issue'' then update_issue srv message
     else if command = JStr ''search_issues'' then search_issues srv message
     else if command = JStr ''get_epic_with_subtasks'' then get_epic_with_subtasks srv message
     else if command = JStr ''get_my_issues'' then get_my_issues srv message
     else if command = JStr ''get_transitions'' then get_transitions srv message
     else io_return (error_envelope (''Unknown command: '' @ py_str command)))"

text \<open>\<open>handle_mcp_message\<close>: the body above inside \<open>try ... except Exception as e\<close>.\<close>

definition handle_mcp_message :: "MCPJiraServer \<Rightarrow> json \<Rightarrow> json io" where
  "handle_mcp_message srv message =
     io_try (dispatch srv message) (\<lambda>e. io_return (error_envelope (exn_str e)))"

section \<open>Reading a response\<close>

definition has_field :: "json \<Rightarrow> string \<Rightarrow> bool" where
  "has_field r k = (case r of JDict kvs \<Rightarrow> map_of kvs k \<noteq> None | _ \<Rightarrow> False)"

definition field :: "json \<Rightarrow> string \<Rightarrow> json" where
  "field r k = (case r of JDict kvs \<Rightarrow> dict_get kvs k JNull | _ \<Rightarrow> JNull)"

definition status_of :: "json \<Rightarrow> json option" where
  "status_of r = (case r of JDict kvs \<Rightarrow> map_of kvs ''status'' | _ \<Rightarrow> None)"

text \<open>A populated \<open>message\<close> is a string; populated \<open>data\<close> is a dict that is not empty.\<close>

definition is_string :: "json \<Rightarrow> bool" where
  "is_string v = (case v of JStr m \<Rightarrow> True | _ \<Rightarrow> False)"

definition is_mapping :: "json \<Rightarrow> bool" where
  "is_mapping v = (case v of JDict kvs \<Rightarrow> kvs \<noteq> [] | _ \<Rightarrow> False)"

text \<open>
  The invariant of the response envelope: the status is \<open>error\<close> or \<open>success\<close>; an
  error has a message that is a string and has no \<open>data\<close> key; a success has either
  \<open>data\<close> that is a dict with an entry and no \<open>message\<close> key, or no \<open>data\<close> key and a
  message that is a string.
\<close>

definition envelope_ok :: "json \<Rightarrow> bool" where
  "envelope_ok r =
     (if status_of r = Some (JStr ''error'')
      then is_string (field r ''message'') \<and> \<not> has_field r ''data''
      else status_of r = Some (JStr ''success'')
           \<and> (if has_field r ''data''
                then is_mapping (field r ''data'') \<and> \<not> has_field r ''message''
                else is_string (field r ''message'')))"

text \<open>The seven command names of the dispatcher.\<close>

definition commands :: "string list" where
  "commands = [''create_issue'', ''get_issue'', ''update_issue'', ''search_issues'',
     ''get_epic_with_subtasks'', ''get_my_issues'', ''get_transitions'']"

section \<open>Example inputs\<close>

definition example_issue :: issue where
  "example_issue = \<lparr>i_key = ''PAY-1'', i_id = ''10001'', i_self = ''https://tracker/rest/api/2/issue/10001'',
     i_summary = ''Payments'', i_description = None, i_status = ''Open'',
     i_created = ''2024-01-01'', i_updated = ''2024-01-02'', i_assignee = None, i_reporter = None,
     i_priority = None, i_project_key = ''PAY'', i_project_name = ''Payments'',
     i_issuetype = ''Task'', i_subtask = False, i_duedate = None\<rparr>"

definition example_transitions :: "transition list" where
  "example_transitions =
     [\<lparr>t_id = ''11'', t_name = ''Start'', t_to = ''In Progress''\<rparr>,
      \<lparr>t_id = ''21'', t_name = ''Close'', t_to = ''Done''\<rparr>]"

text \<open>A tracker that answers every call.\<close>

definition example_jira :: jira_api where
  "example_jira = \<lparr>
     jira_create_issue = (\<lambda>calls flds. Inr example_issue),
     jira_issue = (\<lambda>calls k. Inr example_issue),
     jira_transitions = (\<lambda>calls i. Inr example_transitions),
     jira_transition_issue = (\<lambda>calls i tid. Inr ()),
     jira_update_fields = (\<lambda>calls i flds. Inr ()),
     jira_search_issues = (\<lambda>calls jql start_at max_res. Inr \<lparr>rl_issues = [example_issue], rl_total = 10\<rparr>)\<rparr>"

definition example_server :: MCPJiraServer where
  "example_server = \<lparr>config = \<lparr>server = ''https://tracker'', user = ''bot'', token = ''secret'',
     timeout = 30, max_results = 50\<rparr>, jira = example_jira\<rparr>"

definition msg_unknown :: json where
  "msg_unknown = JDict [(''command'', JStr ''delete_issue''), (''data'', JDict [])]"

definition msg_null_data :: json where
  "msg_null_data = JDict [(''command'', JStr ''create_issue''), (''data'', JNull)]"

definition msg_search_title :: json where
  "msg_search_title = JDict [(''command'', JStr ''search_issues''),
     (''data'', JDict [(''search_text'', JStr ''refund''), (''title_only'', JBool True)])]"

text \<open>A search text with a double quote in it: \<open>x" OR description ~ "y\<close>.\<close>

definition msg_search_injection :: json where
  "msg_search_injection = JDict [(''command'', JStr ''search_issues''),
     (''data'', JDict [(''search_text'', JStr (''x'' @ [CHR 0x22] @ '' OR description ~ '' @ [CHR 0x22] @ ''y'')),
                       (''title_only'', JBool True)])]"

definition msg_my_issues_asc :: json where
  "msg_my_issues_asc = JDict [(''command'', JStr ''get_my_issues''),
     (''data'', JDict [(''status'', JStr ''Open''), (''sort_by'', JStr ''priority''), (''sort_order'', JStr ''asc'')])]"

definition msg_my_issues_plain :: json where
  "msg_my_issues_plain = JDict [(''command'', JStr ''get_my_issues''), (''data'', JDict [])]"

definition msg_my_issues_sideways :: json where
  "msg_my_issues_sideways = JDict [(''command'', JStr ''get_my_issues''),
     (''data'', JDict [(''sort_by'', JStr ''created''), (''sort_order'', JStr ''sideways'')])]"

text \<open>A request for page \<open>-2\<close> with 100 results a page, and the same request for page 1 with 50.\<close>

definition msg_page_low :: json where
  "msg_page_low = JDict [(''command'', JStr ''search_issues''),
     (''data'', JDict [(''search_text'', JStr ''refund''), (''epic_name'', JStr ''payments''),
                       (''page'', JInt (- 2)), (''page_size'', JInt 100)])]"

definition msg_page_one :: json where
  "msg_page_one = JDict [(''command'', JStr ''search_issues''),
     (''data'', JDict [(''search_text'', JStr ''refund''), (''epic_name'', JStr ''payments''),
                       (''page'', JInt 1), (''page_size'', JInt 50)])]"

text \<open>A request for page 3 with 100 results a page, and the same request with 50.\<close>

definition msg_page_three :: json where
  "msg_page_three = JDict [(''command'', JStr ''search_issues''),
     (''data'', JDict [(''search_text'', JStr ''refund''), (''page'', JInt 3), (''page_size'', JInt 100)])]"

definition msg_page_three_capped :: json where
  "msg_page_three_capped = JDict [(''command'', JStr ''search_issues''),
     (''data'', JDict [(''search_text'', JStr ''refund''), (''page'', JInt 3), (''page_size'', JInt 50)])]"

text \<open>Requests for 0 and for \<open>-3\<close> results a page.\<close>

definition msg_page_size_zero :: json where
  "msg_page_size_zero = JDict [(''command'', JStr ''search_issues''),
     (''data'', JDict [(''search_text'', JStr ''refund''), (''epic_name'', JStr ''payments''),
                       (''page_size'', JInt 0)])]"

definition msg_page_size_negative :: json where
  "msg_page_size_negative = JDict [(''command'', JStr ''search_issues''),
     (''data'', JDict [(''search_text'', JStr ''refund''), (''epic_name'', JStr ''payments''),
                       (''page_size'', JInt (- 3))])]"

text \<open>
  The pagination block of a response: \<open>data.subtasks.pagination\<close> in the response of
  \<open>get_epic_with_subtasks\<close>, \<open>data.pagination\<close> in the other two.
\<close>

definition pagination_of :: "json \<Rightarrow> json" where
  "pagination_of r =
     (if has_field (field r ''data'') ''subtasks''
      then field (field (field r ''data'') ''subtasks'') ''pagination''
      else field (field r ''data'') ''pagination'')"

section \<open>Properties of the handlers\<close>

subsection \<open>Running the handlers\<close>

lemmas io_defs = io_return_def io_lift_def io_bind_def io_try_def
  call_create_issue_def call_issue_def call_transitions_def call_transition_issue_def
  call_update_def call_search_issues_def

lemma on_error_envelope: "\<exists>m. on_error e calls = (Inr (error_envelope m), calls)"
  by (cases e) (auto simp: io_return_def)

lemma search_issues_run:
  assumes "py_get message ''data'' (JDict []) = Inr (JDict d)"
    and "py_int (dict_get d ''page'' (JInt 1)) = Inr p"
    and "py_int (dict_get d ''page_size'' (JInt 20)) = Inr ps"
    and "truthy (dict_get d ''search_text'' JNull)"
  shows "search_issues srv message calls =
    (let page = max 1 p; page_size = min (max_results (config srv)) ps;
         jql = search_jql (dict_get d ''title_only'' (JBool False)) (dict_get d ''search_text'' JNull);
         calls' = calls @ [SearchIssues jql ((page - 1) * page_size) page_size]
     in case jira_search_issues (jira srv) calls jql ((page - 1) * page_size) page_size of
          Inl e \<Rightarrow> on_error e calls'
        | Inr found \<Rightarrow>
            if page_size = 0 then (Inr (error_envelope ''An unexpected error occurred''), calls')
            else (Inr (success_data (JDict
              [(''issues'', JList (map search_row (rl_issues found))),
               (''pagination'', pagination (rl_total found) page page_size
                   ((rl_total found + page_size - 1) div page_size))])), calls'))"
  using assms
  by (simp add: search_issues_def io_defs py_get_def Let_def floordiv_def
      split: sum.splits prod.splits)

lemma get_my_issues_run:
  assumes "py_get message ''data'' (JDict []) = Inr (JDict d)"
    and "py_int (dict_get d ''page'' (JInt 1)) = Inr p"
    and "py_int (dict_get d ''page_size'' (JInt 20)) = Inr ps"
    and "py_upper (dict_get d ''sort_order'' (JStr ''DESC'')) = Inr so"
  shows "get_my_issues srv message calls =
    (let page = max 1 p; page_size = min (max_results (config srv)) ps;
         jql = my_issues_jql (dict_get d ''status'' JNull) (dict_get d ''project'' JNull)
                 (dict_get d ''sort_by'' (JStr ''updated'')) so;
         calls' = calls @ [SearchIssues jql ((page - 1) * page_size) page_size]
     in case jira_search_issues (jira srv) calls jql ((page - 1) * page_size) page_size of
          Inl e \<Rightarrow> on_error e calls'
        | Inr found \<Rightarrow>
            if page_size = 0 then (Inr (error_envelope ''An unexpected error occurred''), calls')
            else (Inr (success_data (JDict
              [(''issues'', JList (map my_issue_row (rl_issues found))),
               (''pagination'', pagination (rl_total found) page page_size
                   ((rl_total found + page_size - 1) div page_size))])), calls'))"
  using assms
  by (simp add: get_my_issues_def io_defs py_get_def Let_def floordiv_def
      split: sum.splits prod.splits)

lemma get_epic_with_subtasks_run:
  assumes "py_get message ''data'' (JDict []) = Inr (JDict d)"
    and "py_int (dict_get d ''page'' (JInt 1)) = Inr p"
    and "py_int (dict_get d ''page_size'' (JInt 20)) = Inr ps"
    and "truthy (dict_get d ''epic_name'' JNull)"
  shows "get_epic_with_subtasks srv message calls =
    (let page = max 1 p; page_size = min (max_results (config srv)) ps;
         epic_name = dict_get d ''epic_name'' JNull;
         calls1 = calls @ [SearchIssues (epic_jql epic_name) 0 5]
     in case jira_search_issues (jira srv) calls (epic_jql epic_name) 0 5 of
          Inl e \<Rightarrow> on_error e calls1
        | Inr epics \<Rightarrow>
           (case rl_issues epics of
              [] \<Rightarrow> (Inr (error_envelope
                      (''No epic found with name containing '' @ quoted (py_str epic_name))), calls1)
            | first_epic # rest \<Rightarrow>
               (case py_lower epic_name of
                  Inl e \<Rightarrow> on_error e calls1
                | Inr wanted \<Rightarrow>
                    let epic = pick_epic (rl_issues epics) wanted first_epic;
                        calls2 = calls1 @ [SearchIssues (subtasks_jql epic) ((page - 1) * page_size) page_size]
                    in case jira_search_issues (jira srv) calls1 (subtasks_jql epic)
                              ((page - 1) * page_size) page_size of
                         Inl e \<Rightarrow> on_error e calls2
                       | Inr subtasks \<Rightarrow>
                           if page_size = 0
                           then (Inr (error_envelope ''An unexpected error occurred''), calls2)
                           else (Inr (success_data (JDict
                             [(''epic'', epic_block epic),
                              (''subtasks'', JDict
                                [(''issues'', JList (map subtask_row (rl_issues subtasks))),
                                 (''pagination'', pagination (rl_total subtasks) page page_size
                                    ((rl_total subtasks + page_size - 1) div page_size))])])),
                                 calls2))))"
  using assms
  by (simp add: get_epic_with_subtasks_def io_defs py_get_def Let_def floordiv_def
      split: sum.splits prod.splits list.splits)

subsection \<open>The shape of every response\<close>

lemma envelope_ok_error: "envelope_ok (error_envelope m)"
  by (simp add: envelope_ok_def error_envelope_def status_of_def has_field_def field_def
      dict_get_def is_string_def)

lemma envelope_ok_data: "envelope_ok (success_data (JDict (kv # kvs)))"
  by (simp add: envelope_ok_def success_data_def status_of_def has_field_def field_def
      dict_get_def is_mapping_def)

lemma envelope_ok_message: "envelope_ok (success_message m)"
  by (simp add: envelope_ok_def success_message_def status_of_def has_field_def field_def
      dict_get_def is_string_def)

lemmas envelope_ok_simps = envelope_ok_error envelope_ok_data envelope_ok_message

lemma on_error_ok: "on_error e calls = (Inr r, calls') \<Longrightarrow> envelope_ok r"
  using on_error_envelope [of e calls] by (auto simp: envelope_ok_error)

lemma on_error_Inr: "fst (on_error e calls) \<noteq> Inl e'"
  using on_error_envelope [of e calls] by auto

lemma create_issue_ok:
  "create_issue srv message calls = (Inr r, calls') \<Longrightarrow> envelope_ok r"
  by (auto simp: create_issue_def io_defs envelope_ok_simps Let_def
      split: sum.splits prod.splits if_splits)

lemma get_issue_ok:
  "get_issue srv message calls = (Inr r, calls') \<Longrightarrow> envelope_ok r"
  by (auto simp: get_issue_def io_defs envelope_ok_simps Let_def
      split: sum.splits prod.splits if_splits)

lemma get_transitions_ok:
  "get_transitions srv message calls = (Inr r, calls') \<Longrightarrow> envelope_ok r"
  by (auto simp: get_transitions_def io_defs envelope_ok_simps Let_def
      split: sum.splits prod.splits if_splits)

lemma update_issue_ok:
  "update_issue srv message calls = (Inr r, calls') \<Longrightarrow> envelope_ok r"
  by (auto simp: update_issue_def io_defs envelope_ok_simps Let_def
      split: sum.splits prod.splits if_splits option.splits)

lemma search_issues_ok:
  "search_issues srv message calls = (Inr r, calls') \<Longrightarrow> envelope_ok r"
  by (auto simp: search_issues_def io_defs envelope_ok_simps Let_def
      split: sum.splits prod.splits if_splits dest: on_error_ok)

lemma get_epic_with_subtasks_ok:
  "get_epic_with_subtasks srv message calls = (Inr r, calls') \<Longrightarrow> envelope_ok r"
  by (auto simp: get_epic_with_subtasks_def io_defs envelope_ok_simps Let_def
      split: sum.splits prod.splits if_splits list.splits dest: on_error_ok)

lemma get_my_issues_ok:
  "get_my_issues srv message calls = (Inr r, calls') \<Longrightarrow> envelope_ok r"
  by (auto simp: get_my_issues_def io_defs envelope_ok_simps Let_def
      split: sum.splits prod.splits if_splits dest: on_error_ok)

subsection \<open>The dispatcher\<close>

lemma dispatch_ok:
  "dispatch srv message calls = (Inr r, calls') \<Longrightarrow> envelope_ok r"
  unfolding dispatch_def io_bind_def io_lift_def io_return_def
  by (auto split: sum.splits if_splits simp: envelope_ok_error
      dest: create_issue_ok get_issue_ok update_issue_ok search_issues_ok
        get_epic_with_subtasks_ok get_my_issues_ok get_transitions_ok)

lemma handle_mcp_message_cases:
  "handle_mcp_message srv message calls =
     (case dispatch srv message calls of
        (Inl e, calls') \<Rightarrow> (Inr (error_envelope (exn_str e)), calls')
      | (Inr r, calls') \<Rightarrow> (Inr r, calls'))"
  by (simp add: handle_mcp_message_def io_try_def io_return_def split: prod.splits sum.splits)

lemma dispatch_unrecognised:
  assumes "\<forall>c \<in> set commands. py_get message ''command'' JNull \<noteq> Inr (JStr c)"
  shows "\<exists>m. handle_mcp_message srv message calls = (Inr (error_envelope m), calls)"
  using assms
  by (cases "py_get message ''command'' JNull")
     (auto simp: handle_mcp_message_cases dispatch_def io_bind_def io_lift_def io_return_def commands_def)

text \<open>
  Claim C9. For every message, whatever the tracker answers, \<open>handle_mcp_message\<close> returns
  an envelope whose status is \<open>error\<close> or \<open>success\<close>. An error envelope has a message that
  is a string and has no \<open>data\<close> key. A success envelope has exactly one of the two: \<open>data\<close>
  that is a dict with at least one entry and no \<open>message\<close> key, or a message that is a
  string and no \<open>data\<close> key.
\<close>

theorem envelope_invariant:
  "\<exists>r calls'. handle_mcp_message srv message calls = (Inr r, calls') \<and> envelope_ok r"
proof (cases "dispatch srv message calls")
  case (Pair res calls')
  show ?thesis
  proof (cases res)
    case (Inl e)
    with Pair show ?thesis
      by (simp add: handle_mcp_message_cases envelope_ok_error)
  next
    case (Inr r)
    with Pair dispatch_ok [of srv message calls r calls'] show ?thesis
      by (simp add: handle_mcp_message_cases)
  qed
qed

text \<open>
  Claim C8. \<open>handle_mcp_message\<close> always returns an envelope and never raises; an exception
  raised while the message is handled becomes an error envelope that carries the text of
  the exception; and a message whose command is missing or is none of the seven command
  names gets an error envelope without any call to the tracker.
\<close>

theorem handle_mcp_message_never_raises:
  "(\<exists>r calls'. handle_mcp_message srv message calls = (Inr r, calls'))
   \<and> (\<forall>e calls'. dispatch srv message calls = (Inl e, calls') \<longrightarrow>
         handle_mcp_message srv message calls = (Inr (error_envelope (exn_str e)), calls'))
   \<and> ((\<forall>c \<in> set commands. py_get message ''command'' JNull \<noteq> Inr (JStr c)) \<longrightarrow>
         (\<exists>m. handle_mcp_message srv message calls = (Inr (error_envelope m), calls)))"
proof (intro conjI allI impI)
  show "\<exists>r calls'. handle_mcp_message srv message calls = (Inr r, calls')"
    by (simp add: handle_mcp_message_cases split: prod.splits sum.splits)
next
  fix e calls'
  assume "dispatch srv message calls = (Inl e, calls')"
  then show "handle_mcp_message srv message calls = (Inr (error_envelope (exn_str e)), calls')"
    by (simp add: handle_mcp_message_cases)
next
  assume "\<forall>c \<in> set commands. py_get message ''command'' JNull \<noteq> Inr (JStr c)"
  then show "\<exists>m. handle_mcp_message srv message calls = (Inr (error_envelope m), calls)"
    by (rule dispatch_unrecognised)
qed

lemma dispatch_msg_null_data:
  "dispatch example_server msg_null_data [] =
     (Inl (TypeError (''argument of type '' @ repr_string ''NoneType'' @ '' is not iterable'')), [])"
  by (simp add: dispatch_def msg_null_data_def create_issue_def io_defs py_get_def dict_get_def
      py_in_def)

theorem handle_mcp_message_never_raises_witness:
  "py_get msg_unknown ''command'' JNull = Inr (JStr ''delete_issue'')
   \<and> ''delete_issue'' \<notin> set commands
   \<and> (\<exists>m. handle_mcp_message example_server msg_unknown [] = (Inr (error_envelope m), []))
   \<and> dispatch example_server msg_null_data [] =
       (Inl (TypeError (''argument of type '' @ repr_string ''NoneType'' @ '' is not iterable'')), [])
   \<and> handle_mcp_message example_server msg_null_data [] =
       (Inr (error_envelope (''argument of type '' @ repr_string ''NoneType'' @ '' is not iterable'')), [])"
proof -
  have cmd: "py_get msg_unknown ''command'' JNull = Inr (JStr ''delete_issue'')"
    by (simp add: msg_unknown_def py_get_def dict_get_def)
  have fresh: "''delete_issue'' \<notin> set commands"
    by (simp add: commands_def)
  have hyp: "\<forall>c \<in> set commands. py_get msg_unknown ''command'' JNull \<noteq> Inr (JStr c)"
    using fresh by (auto simp: cmd)
  note thm1 = handle_mcp_message_never_raises [of example_server msg_unknown "[]"]
  note thm2 = handle_mcp_message_never_raises [of example_server msg_null_data "[]"]
  from thm1 hyp have a: "\<exists>m. handle_mcp_message example_server msg_unknown [] = (Inr (error_envelope m), [])"
    by blast
  from thm2 dispatch_msg_null_data
  have b: "handle_mcp_message example_server msg_null_data [] =
       (Inr (error_envelope (''argument of type '' @ repr_string ''NoneType'' @ '' is not iterable'')), [])"
    by (metis exn_str.simps(3))
  from cmd fresh a b dispatch_msg_null_data show ?thesis by blast
qed

subsection \<open>The queries of the search handlers\<close>

lemma upper_asc: "upper ''asc'' = ''ASC''"
  by code_simp

lemma upper_desc: "upper ''desc'' = ''DESC''"
  by code_simp

lemma upper_DESC: "upper ''DESC'' = ''DESC''"
  by code_simp

lemma upper_sideways: "upper ''sideways'' = ''SIDEWAYS''"
  by code_simp

lemma py_get_JDict: "py_get (JDict kvs) k x = Inr (dict_get kvs k x)"
  by (simp add: py_get_def)

lemma on_error_calls: "snd (on_error e calls) = calls"
  using on_error_envelope [of e calls] by auto

lemma search_issues_calls:
  assumes "py_get message ''data'' (JDict []) = Inr (JDict d)"
    and "py_int (dict_get d ''page'' (JInt 1)) = Inr p"
    and "py_int (dict_get d ''page_size'' (JInt 20)) = Inr ps"
    and "truthy (dict_get d ''search_text'' JNull)"
  shows "snd (search_issues srv message calls) = calls @
     [SearchIssues (search_jql (dict_get d ''title_only'' (JBool False)) (dict_get d ''search_text'' JNull))
        ((max 1 p - 1) * min (max_results (config srv)) ps) (min (max_results (config srv)) ps)]"
  by (simp add: search_issues_run [OF assms] Let_def on_error_calls split: sum.splits)

lemma get_my_issues_calls:
  assumes "py_get message ''data'' (JDict []) = Inr (JDict d)"
    and "py_int (dict_get d ''page'' (JInt 1)) = Inr p"
    and "py_int (dict_get d ''page_size'' (JInt 20)) = Inr ps"
    and "py_upper (dict_get d ''sort_order'' (JStr ''DESC'')) = Inr so"
  shows "snd (get_my_issues srv message calls) = calls @
     [SearchIssues (my_issues_jql (dict_get d ''status'' JNull) (dict_get d ''project'' JNull)
                 (dict_get d ''sort_by'' (JStr ''updated'')) so)
        ((max 1 p - 1) * min (max_results (config srv)) ps) (min (max_results (config srv)) ps)]"
  by (simp add: get_my_issues_run [OF assms] Let_def on_error_calls split: sum.splits)

text \<open>
  The query of \<open>search_issues\<close> is the text of lines 204 and 206 with \<open>str(search_text)\<close>
  put between the double quotes as it is.
\<close>

lemma search_issues_template:
  assumes "py_get message ''data'' (JDict []) = Inr (JDict d)"
    and "py_int (dict_get d ''page'' (JInt 1)) = Inr p"
    and "py_int (dict_get d ''page_size'' (JInt 20)) = Inr ps"
    and "truthy (dict_get d ''search_text'' JNull)"
  shows "snd (search_issues srv message calls) = calls @
     [SearchIssues
        (if truthy (dict_get d ''title_only'' (JBool False))
         then ''summary ~ '' @ quoted (py_str (dict_get d ''search_text'' JNull))
              @ '' AND issuetype != Epic''
         else ''(summary ~ '' @ quoted (py_str (dict_get d ''search_text'' JNull))
              @ '' OR description ~ '' @ quoted (py_str (dict_get d ''search_text'' JNull))
              @ '') AND issuetype != Epic'')
        ((max 1 p - 1) * min (max_results (config srv)) ps) (min (max_results (config srv)) ps)]"
  using search_issues_calls [OF assms, of srv calls] by (simp add: search_jql_def)

lemma search_issues_title_example:
  "snd (search_issues example_server msg_search_title []) =
      [SearchIssues (''summary ~ '' @ quoted ''refund'' @ '' AND issuetype != Epic'') 0 20]"
proof -
  have d: "py_get msg_search_title ''data'' (JDict []) =
      Inr (JDict [(''search_text'', JStr ''refund''), (''title_only'', JBool True)])"
    by (simp add: msg_search_title_def py_get_def dict_get_def)
  have p: "py_int (dict_get [(''search_text'', JStr ''refund''), (''title_only'', JBool True)] ''page'' (JInt 1)) = Inr 1"
    by (simp add: dict_get_def py_int_def)
  have ps: "py_int (dict_get [(''search_text'', JStr ''refund''), (''title_only'', JBool True)] ''page_size'' (JInt 20)) = Inr 20"
    by (simp add: dict_get_def py_int_def)
  have t: "truthy (dict_get [(''search_text'', JStr ''refund''), (''title_only'', JBool True)] ''search_text'' JNull)"
    by (simp add: dict_get_def)
  from search_issues_template [OF d p ps t, of example_server "[]"] show ?thesis
    by (simp add: dict_get_def py_str_def example_server_def)
qed

text \<open>
  Claim C6. With \<open>title_only\<close> true the query is to match the search text against the
  summary only and to exclude the type Epic. The handler puts the search text between
  double quotes without escaping it. For the search text \<open>x" OR description ~ "y\<close> and
  \<open>title_only\<close> true, the query the handler sends is
  \<open>summary ~ "x" OR description ~ "y" AND issuetype != Epic\<close>: it has a clause on the
  description, and the exclusion of Epic is a conjunct of that clause only, not of the
  clause on the summary.
\<close>

theorem search_issues_quote_injection:
  "snd (search_issues example_server msg_search_injection []) =
     [SearchIssues (''summary ~ '' @ quoted ''x'' @ '' OR description ~ '' @ quoted ''y''
                    @ '' AND issuetype != Epic'') 0 20]"
proof -
  let ?t = "''x'' @ [CHR 0x22] @ '' OR description ~ '' @ [CHR 0x22] @ ''y''"
  let ?d = "[(''search_text'', JStr ?t), (''title_only'', JBool True)]"
  have d: "py_get msg_search_injection ''data'' (JDict []) = Inr (JDict ?d)"
    by (simp add: msg_search_injection_def py_get_def dict_get_def)
  have p: "py_int (dict_get ?d ''page'' (JInt 1)) = Inr 1"
    by (simp add: dict_get_def py_int_def)
  have ps: "py_int (dict_get ?d ''page_size'' (JInt 20)) = Inr 20"
    by (simp add: dict_get_def py_int_def)
  have t: "truthy (dict_get ?d ''search_text'' JNull)"
    by (simp add: dict_get_def)
  from search_issues_template [OF d p ps t, of example_server "[]"] show ?thesis
    by (simp add: dict_get_def py_str_def example_server_def quoted_def)
qed

text \<open>
  Claim C4, amended. \<open>get_my_issues\<close> reads \<open>sort_by\<close> with the default \<open>updated\<close> and
  \<open>sort_order\<close> with the default \<open>DESC\<close>. The query is the filters joined with \<open>AND\<close>,
  followed by \<open>ORDER BY sort_by direction\<close> exactly when that \<open>sort_by\<close> is one of
  \<open>created\<close>, \<open>updated\<close>, \<open>priority\<close>, \<open>status\<close>, \<open>duedate\<close>: a request with no \<open>sort_by\<close> is
  sorted by \<open>updated\<close>, and only a \<open>sort_by\<close> that is given and is none of the five leaves
  the query without the clause. The direction is \<open>sort_order\<close> in upper case, whatever
  string it is: \<open>ASC\<close> for \<open>asc\<close>, \<open>DESC\<close> for \<open>desc\<close> and when the request has none. The
  values of \<open>status\<close> and \<open>project\<close> are put between double quotes as they are.
\<close>

theorem get_my_issues_order_by:
  assumes "py_get message ''data'' (JDict []) = Inr (JDict d)"
    and "py_int (dict_get d ''page'' (JInt 1)) = Inr p"
    and "py_int (dict_get d ''page_size'' (JInt 20)) = Inr ps"
    and "dict_get d ''sort_order'' (JStr ''DESC'') = JStr sort_order"
    and "upper_in_range sort_order"
  shows "(let sort_by = dict_get d ''sort_by'' (JStr ''updated'');
              status = dict_get d ''status'' JNull;
              project = dict_get d ''project'' JNull;
              direction = upper sort_order;
              filters = join '' AND '' ([''assignee = currentUser()'']
                 @ (if truthy status then [''status = '' @ quoted (py_str status)] else [])
                 @ (if truthy project then [''project = '' @ quoted (py_str project)] else []))
          in snd (get_my_issues srv message calls) = calls @
               [SearchIssues
                  (if sort_by \<in> {JStr ''created'', JStr ''updated'', JStr ''priority'',
                                  JStr ''status'', JStr ''duedate''}
                   then filters @ '' ORDER BY '' @ py_str sort_by @ '' '' @ direction
                   else filters)
                  ((max 1 p - 1) * min (max_results (config srv)) ps)
                  (min (max_results (config srv)) ps)])
         \<and> (map_of d ''sort_by'' = None \<longrightarrow> dict_get d ''sort_by'' (JStr ''updated'') = JStr ''updated'')
         \<and> (map_of d ''sort_order'' = None \<longrightarrow> upper sort_order = ''DESC'')
         \<and> (sort_order = ''asc'' \<longrightarrow> upper sort_order = ''ASC'')
         \<and> (sort_order = ''desc'' \<longrightarrow> upper sort_order = ''DESC'')"
proof -
  have up: "py_upper (dict_get d ''sort_order'' (JStr ''DESC'')) = Inr (upper sort_order)"
    using assms(4) by (simp add: py_upper_def)
  have dir: "(map_of d ''sort_by'' = None \<longrightarrow> dict_get d ''sort_by'' (JStr ''updated'') = JStr ''updated'')
         \<and> (map_of d ''sort_order'' = None \<longrightarrow> upper sort_order = ''DESC'')
         \<and> (sort_order = ''asc'' \<longrightarrow> upper sort_order = ''ASC'')
         \<and> (sort_order = ''desc'' \<longrightarrow> upper sort_order = ''DESC'')"
    using assms(4) upper_asc upper_desc upper_DESC
    by (auto simp: dict_get_def)
  show ?thesis
    using get_my_issues_calls [OF assms(1-3) up, of srv calls] dir
    by (simp add: my_issues_jql_def sort_fields_def Let_def)
qed

theorem get_my_issues_order_by_witness:
  "dict_get [(''status'', JStr ''Open''), (''sort_by'', JStr ''priority''), (''sort_order'', JStr ''asc'')]
       ''sort_order'' (JStr ''DESC'') = JStr ''asc''
   \<and> upper_in_range ''asc''
   \<and> snd (get_my_issues example_server msg_my_issues_asc []) =
      [SearchIssues (''assignee = currentUser() AND status = '' @ quoted ''Open'' @ '' ORDER BY priority ASC'') 0 20]"
proof -
  let ?d = "[(''status'', JStr ''Open''), (''sort_by'', JStr ''priority''), (''sort_order'', JStr ''asc'')]"
  have d: "py_get msg_my_issues_asc ''data'' (JDict []) = Inr (JDict ?d)"
    by (simp add: msg_my_issues_asc_def py_get_def dict_get_def)
  have p: "py_int (dict_get ?d ''page'' (JInt 1)) = Inr 1"
    by (simp add: dict_get_def py_int_def)
  have ps: "py_int (dict_get ?d ''page_size'' (JInt 20)) = Inr 20"
    by (simp add: dict_get_def py_int_def)
  have so: "dict_get ?d ''sort_order'' (JStr ''DESC'') = JStr ''asc''"
    by (simp add: dict_get_def)
  have r: "upper_in_range ''asc''"
    by (simp add: upper_in_range_def)
  from get_my_issues_order_by [OF d p ps so r, of example_server "[]"] so r show ?thesis
    by (simp add: dict_get_def py_str_def example_server_def Let_def upper_asc)
qed

text \<open>
  The claim as it was stated fails on two requests. A request with no \<open>sort_by\<close> gets
  the clause \<open>ORDER BY updated DESC\<close>, so it is not unsorted. A request with the
  \<open>sort_order\<close> \<open>sideways\<close> gets the direction \<open>SIDEWAYS\<close>, which is neither \<open>asc\<close> nor \<open>desc\<close>.
\<close>

theorem get_my_issues_default_sort:
  "py_get msg_my_issues_plain ''data'' (JDict []) = Inr (JDict [])
   \<and> map_of ([] :: (string \<times> json) list) ''sort_by'' = None
   \<and> snd (get_my_issues example_server msg_my_issues_plain []) =
        [SearchIssues ''assignee = currentUser() ORDER BY updated DESC'' 0 20]
   \<and> snd (get_my_issues example_server msg_my_issues_sideways []) =
        [SearchIssues ''assignee = currentUser() ORDER BY created SIDEWAYS'' 0 20]"
proof -
  have d: "py_get msg_my_issues_plain ''data'' (JDict []) = Inr (JDict [])"
    by (simp add: msg_my_issues_plain_def py_get_def dict_get_def)
  have a: "snd (get_my_issues example_server msg_my_issues_plain []) =
        [SearchIssues ''assignee = currentUser() ORDER BY updated DESC'' 0 20]"
    using get_my_issues_calls [OF d, of 1 20 "''DESC''" example_server "[]"]
    by (simp add: dict_get_def py_int_def py_upper_def upper_DESC my_issues_jql_def
        sort_fields_def py_str_def example_server_def)
  let ?e = "[(''sort_by'', JStr ''created''), (''sort_order'', JStr ''sideways'')]"
  have e: "py_get msg_my_issues_sideways ''data'' (JDict []) = Inr (JDict ?e)"
    by (simp add: msg_my_issues_sideways_def py_get_def dict_get_def)
  have b: "snd (get_my_issues example_server msg_my_issues_sideways []) =
        [SearchIssues ''assignee = currentUser() ORDER BY created SIDEWAYS'' 0 20]"
    using get_my_issues_calls [OF e, of 1 20 "''SIDEWAYS''" example_server "[]"]
    by (simp add: dict_get_def py_int_def py_upper_def upper_sideways my_issues_jql_def
        sort_fields_def py_str_def example_server_def)
  from d a b show ?thesis by simp
qed

subsection \<open>Pagination\<close>

lemma get_epic_with_subtasks_calls:
  assumes "py_get message ''data'' (JDict []) = Inr (JDict d)"
    and "py_int (dict_get d ''page'' (JInt 1)) = Inr p"
    and "py_int (dict_get d ''page_size'' (JInt 20)) = Inr ps"
    and "truthy (dict_get d ''epic_name'' JNull)"
    and "py_lower (dict_get d ''epic_name'' JNull) = Inr wanted"
    and "jira_search_issues (jira srv) calls (epic_jql (dict_get d ''epic_name'' JNull)) 0 5 = Inr epics"
    and "rl_issues epics = e # es"
  shows "snd (get_epic_with_subtasks srv message calls) = calls @
     [SearchIssues (epic_jql (dict_get d ''epic_name'' JNull)) 0 5,
      SearchIssues (subtasks_jql (pick_epic (e # es) wanted e))
        ((max 1 p - 1) * min (max_results (config srv)) ps) (min (max_results (config srv)) ps)]"
  using assms(5-7)
  by (simp add: get_epic_with_subtasks_run [OF assms(1-4)] Let_def on_error_calls split: sum.splits)

lemma dict_get_agree:
  assumes "\<forall>k. k \<noteq> ''page'' \<and> k \<noteq> ''page_size'' \<longrightarrow> map_of d' k = map_of d k"
    and "k \<noteq> ''page''" and "k \<noteq> ''page_size''"
  shows "dict_get d' k x = dict_get d k x"
  using assms by (simp add: dict_get_def)

lemma search_issues_same:
  assumes "py_get message ''data'' (JDict []) = Inr (JDict d)"
    and "py_get message' ''data'' (JDict []) = Inr (JDict d')"
    and agree: "\<forall>k. k \<noteq> ''page'' \<and> k \<noteq> ''page_size'' \<longrightarrow> map_of d' k = map_of d k"
    and "py_int (dict_get d ''page'' (JInt 1)) = Inr p"
    and "py_int (dict_get d ''page_size'' (JInt 20)) = Inr ps"
    and "py_int (dict_get d' ''page'' (JInt 1)) = Inr (max 1 p)"
    and "py_int (dict_get d' ''page_size'' (JInt 20)) = Inr (min (max_results (config srv)) ps)"
  shows "search_issues srv message' calls = search_issues srv message calls"
  using assms(1,2,4-7)
  by (simp add: search_issues_def io_defs py_get_JDict Let_def
      dict_get_agree [OF agree, of "''search_text''"] dict_get_agree [OF agree, of "''title_only''"]
      cong: sum.case_cong)

lemma get_my_issues_same:
  assumes "py_get message ''data'' (JDict []) = Inr (JDict d)"
    and "py_get message' ''data'' (JDict []) = Inr (JDict d')"
    and agree: "\<forall>k. k \<noteq> ''page'' \<and> k \<noteq> ''page_size'' \<longrightarrow> map_of d' k = map_of d k"
    and "py_int (dict_get d ''page'' (JInt 1)) = Inr p"
    and "py_int (dict_get d ''page_size'' (JInt 20)) = Inr ps"
    and "py_int (dict_get d' ''page'' (JInt 1)) = Inr (max 1 p)"
    and "py_int (dict_get d' ''page_size'' (JInt 20)) = Inr (min (max_results (config srv)) ps)"
  shows "get_my_issues srv message' calls = get_my_issues srv message calls"
  using assms(1,2,4-7)
  by (simp add: get_my_issues_def io_defs py_get_JDict Let_def
      dict_get_agree [OF agree, of "''status''"] dict_get_agree [OF agree, of "''project''"]
      dict_get_agree [OF agree, of "''sort_by''"] dict_get_agree [OF agree, of "''sort_order''"]
      cong: sum.case_cong)

lemma get_epic_with_subtasks_same:
  assumes "py_get message ''data'' (JDict []) = Inr (JDict d)"
    and "py_get message' ''data'' (JDict []) = Inr (JDict d')"
    and agree: "\<forall>k. k \<noteq> ''page'' \<and> k \<noteq> ''page_size'' \<longrightarrow> map_of d' k = map_of d k"
    and "py_int (dict_get d ''page'' (JInt 1)) = Inr p"
    and "py_int (dict_get d ''page_size'' (JInt 20)) = Inr ps"
    and "py_int (dict_get d' ''page'' (JInt 1)) = Inr (max 1 p)"
    and "py_int (dict_get d' ''page_size'' (JInt 20)) = Inr (min (max_results (config srv)) ps)"
  shows "get_epic_with_subtasks srv message' calls = get_epic_with_subtasks srv message calls"
  using assms(1,2,4-7)
  by (simp add: get_epic_with_subtasks_def io_defs py_get_JDict Let_def
      dict_get_agree [OF agree, of "''epic_name''"] cong: sum.case_cong list.case_cong)

text \<open>
  Claim C5. In each of \<open>search_issues\<close>, \<open>get_my_issues\<close> and \<open>get_epic_with_subtasks\<close> the
  page is the requested page, or 1 when the requested page is 0 or negative, and the
  page size is the requested page size, or the configured maximum when the request is
  above it. The paginated search is called with the offset \<open>(page - 1) * page_size\<close> and
  with that page size. A request that differs only in asking for that page and that page
  size outright gets the same calls and the same response: page 0 or a negative page
  behaves as page 1, and a page size above the maximum behaves as the maximum.
\<close>

theorem pagination_offset:
  assumes "py_get message ''data'' (JDict []) = Inr (JDict d)"
    and "py_int (dict_get d ''page'' (JInt 1)) = Inr p"
    and "py_int (dict_get d ''page_size'' (JInt 20)) = Inr ps"
    and "py_get message' ''data'' (JDict []) = Inr (JDict d')"
    and "\<forall>k. k \<noteq> ''page'' \<and> k \<noteq> ''page_size'' \<longrightarrow> map_of d' k = map_of d k"
    and "py_int (dict_get d' ''page'' (JInt 1)) = Inr (if p \<le> 0 then 1 else p)"
    and "py_int (dict_get d' ''page_size'' (JInt 20)) =
           Inr (if max_results (config srv) < ps then max_results (config srv) else ps)"
  shows "(let page = (if p \<le> 0 then 1 else p);
              page_size = (if max_results (config srv) < ps then max_results (config srv) else ps);
              offset = (page - 1) * page_size;
              epic_name = dict_get d ''epic_name'' JNull
          in (truthy (dict_get d ''search_text'' JNull) \<longrightarrow>
                snd (search_issues srv message calls) = calls @
                  [SearchIssues (search_jql (dict_get d ''title_only'' (JBool False))
                                   (dict_get d ''search_text'' JNull)) offset page_size])
           \<and> (py_upper (dict_get d ''sort_order'' (JStr ''DESC'')) = Inr so \<longrightarrow>
                snd (get_my_issues srv message calls) = calls @
                  [SearchIssues (my_issues_jql (dict_get d ''status'' JNull) (dict_get d ''project'' JNull)
                                   (dict_get d ''sort_by'' (JStr ''updated'')) so) offset page_size])
           \<and> (truthy epic_name \<and> py_lower epic_name = Inr wanted
                \<and> jira_search_issues (jira srv) calls (epic_jql epic_name) 0 5 = Inr epics
                \<and> rl_issues epics = e # es \<longrightarrow>
                snd (get_epic_with_subtasks srv message calls) = calls @
                  [SearchIssues (epic_jql epic_name) 0 5,
                   SearchIssues (subtasks_jql (pick_epic (e # es) wanted e)) offset page_size])
           \<and> search_issues srv message' calls = search_issues srv message calls
           \<and> get_my_issues srv message' calls = get_my_issues srv message calls
           \<and> get_epic_with_subtasks srv message' calls = get_epic_with_subtasks srv message calls)"
proof -
  have pg: "(if p \<le> 0 then 1 else p) = max 1 p"
    by (simp add: max_def)
  have sz: "(if max_results (config srv) < ps then max_results (config srv) else ps)
              = min (max_results (config srv)) ps"
    by (simp add: min_def)
  note p' = assms(6) [unfolded pg]
  note ps' = assms(7) [unfolded sz]
  have a: "truthy (dict_get d ''search_text'' JNull) \<longrightarrow>
      snd (search_issues srv message calls) = calls @
        [SearchIssues (search_jql (dict_get d ''title_only'' (JBool False)) (dict_get d ''search_text'' JNull))
           ((max 1 p - 1) * min (max_results (config srv)) ps) (min (max_results (config srv)) ps)]"
    using search_issues_calls [OF assms(1-3)] by blast
  have b: "py_upper (dict_get d ''sort_order'' (JStr ''DESC'')) = Inr so \<longrightarrow>
      snd (get_my_issues srv message calls) = calls @
        [SearchIssues (my_issues_jql (dict_get d ''status'' JNull) (dict_get d ''project'' JNull)
                         (dict_get d ''sort_by'' (JStr ''updated'')) so)
           ((max 1 p - 1) * min (max_results (config srv)) ps) (min (max_results (config srv)) ps)]"
    using get_my_issues_calls [OF assms(1-3)] by blast
  have c: "truthy (dict_get d ''epic_name'' JNull) \<and> py_lower (dict_get d ''epic_name'' JNull) = Inr wanted
      \<and> jira_search_issues (jira srv) calls (epic_jql (dict_get d ''epic_name'' JNull)) 0 5 = Inr epics
      \<and> rl_issues epics = e # es \<longrightarrow>
      snd (get_epic_with_subtasks srv message calls) = calls @
        [SearchIssues (epic_jql (dict_get d ''epic_name'' JNull)) 0 5,
         SearchIssues (subtasks_jql (pick_epic (e # es) wanted e))
           ((max 1 p - 1) * min (max_results (config srv)) ps) (min (max_results (config srv)) ps)]"
    using get_epic_with_subtasks_calls [OF assms(1-3)] by blast
  have s1: "search_issues srv message' calls = search_issues srv message calls"
    by (rule search_issues_same [OF assms(1) assms(4) assms(5) assms(2) assms(3) p' ps'])
  have s2: "get_my_issues srv message' calls = get_my_issues srv message calls"
    by (rule get_my_issues_same [OF assms(1) assms(4) assms(5) assms(2) assms(3) p' ps'])
  have s3: "get_epic_with_subtasks srv message' calls = get_epic_with_subtasks srv message calls"
    by (rule get_epic_with_subtasks_same [OF assms(1) assms(4) assms(5) assms(2) assms(3) p' ps'])
  show ?thesis
    unfolding Let_def pg sz using a b c s1 s2 s3 by blast
qed

lemma msg_page_low_data:
  "py_get msg_page_low ''data'' (JDict []) =
     Inr (JDict [(''search_text'', JStr ''refund''), (''epic_name'', JStr ''payments''),
                 (''page'', JInt (- 2)), (''page_size'', JInt 100)])"
  by (simp add: msg_page_low_def py_get_def dict_get_def)

lemma msg_page_one_data:
  "py_get msg_page_one ''data'' (JDict []) =
     Inr (JDict [(''search_text'', JStr ''refund''), (''epic_name'', JStr ''payments''),
                 (''page'', JInt 1), (''page_size'', JInt 50)])"
  by (simp add: msg_page_one_def py_get_def dict_get_def)

lemma msg_page_three_data:
  "py_get msg_page_three ''data'' (JDict []) =
     Inr (JDict [(''search_text'', JStr ''refund''), (''page'', JInt 3), (''page_size'', JInt 100)])"
  by (simp add: msg_page_three_def py_get_def dict_get_def)

lemma msg_page_three_capped_data:
  "py_get msg_page_three_capped ''data'' (JDict []) =
     Inr (JDict [(''search_text'', JStr ''refund''), (''page'', JInt 3), (''page_size'', JInt 50)])"
  by (simp add: msg_page_three_capped_def py_get_def dict_get_def)

lemma lower_payments: "lower ''payments'' = ''payments''"
  by code_simp

theorem pagination_offset_witness:
  "snd (search_issues example_server msg_page_low []) =
      [SearchIssues (''(summary ~ '' @ quoted ''refund'' @ '' OR description ~ '' @ quoted ''refund''
                     @ '') AND issuetype != Epic'') 0 50]
   \<and> snd (get_my_issues example_server msg_page_low []) =
      [SearchIssues ''assignee = currentUser() ORDER BY updated DESC'' 0 50]
   \<and> snd (get_epic_with_subtasks example_server msg_page_low []) =
      [SearchIssues (epic_jql (JStr ''payments'')) 0 5, SearchIssues (subtasks_jql example_issue) 0 50]
   \<and> search_issues example_server msg_page_one [] = search_issues example_server msg_page_low []
   \<and> get_my_issues example_server msg_page_one [] = get_my_issues example_server msg_page_low []
   \<and> get_epic_with_subtasks example_server msg_page_one [] =
        get_epic_with_subtasks example_server msg_page_low []
   \<and> snd (search_issues example_server msg_page_three []) =
      [SearchIssues (''(summary ~ '' @ quoted ''refund'' @ '' OR description ~ '' @ quoted ''refund''
                     @ '') AND issuetype != Epic'') 100 50]
   \<and> search_issues example_server msg_page_three_capped [] = search_issues example_server msg_page_three []"
proof -
  let ?d = "[(''search_text'', JStr ''refund''), (''epic_name'', JStr ''payments''),
             (''page'', JInt (- 2)), (''page_size'', JInt 100)]"
  let ?d' = "[(''search_text'', JStr ''refund''), (''epic_name'', JStr ''payments''),
              (''page'', JInt 1), (''page_size'', JInt 50)]"
  have p: "py_int (dict_get ?d ''page'' (JInt 1)) = Inr (- 2)"
    by (simp add: dict_get_def py_int_def)
  have ps: "py_int (dict_get ?d ''page_size'' (JInt 20)) = Inr 100"
    by (simp add: dict_get_def py_int_def)
  have agree: "\<forall>k. k \<noteq> ''page'' \<and> k \<noteq> ''page_size'' \<longrightarrow> map_of ?d' k = map_of ?d k"
    by simp
  have p': "py_int (dict_get ?d' ''page'' (JInt 1)) = Inr (if (- 2 :: int) \<le> 0 then 1 else - 2)"
    by (simp add: dict_get_def py_int_def)
  have ps': "py_int (dict_get ?d' ''page_size'' (JInt 20)) =
      Inr (if max_results (config example_server) < 100 then max_results (config example_server) else 100)"
    by (simp add: dict_get_def py_int_def example_server_def)
  have has_text: "truthy (dict_get ?d ''search_text'' JNull)"
    by (simp add: dict_get_def)
  have so: "py_upper (dict_get ?d ''sort_order'' (JStr ''DESC'')) = Inr ''DESC''"
    by (simp add: dict_get_def py_upper_def upper_DESC)
  have name: "truthy (dict_get ?d ''epic_name'' JNull)"
    by (simp add: dict_get_def)
  have wanted: "py_lower (dict_get ?d ''epic_name'' JNull) = Inr ''payments''"
    by (simp add: dict_get_def py_lower_def lower_payments)
  have epics: "jira_search_issues (jira example_server) [] (epic_jql (dict_get ?d ''epic_name'' JNull)) 0 5 =
      Inr \<lparr>rl_issues = [example_issue], rl_total = 10\<rparr>"
    by (simp add: example_server_def example_jira_def)
  note low = pagination_offset [where so = "''DESC''" and wanted = "''payments''"
      and epics = "\<lparr>rl_issues = [example_issue], rl_total = 10\<rparr>" and e = example_issue and es = "[]",
      OF msg_page_low_data p ps msg_page_one_data agree p' ps', of "[]"]
  let ?t = "[(''search_text'', JStr ''refund''), (''page'', JInt 3), (''page_size'', JInt 100)]"
  let ?t' = "[(''search_text'', JStr ''refund''), (''page'', JInt 3), (''page_size'', JInt 50)]"
  have q: "py_int (dict_get ?t ''page'' (JInt 1)) = Inr 3"
    by (simp add: dict_get_def py_int_def)
  have qs: "py_int (dict_get ?t ''page_size'' (JInt 20)) = Inr 100"
    by (simp add: dict_get_def py_int_def)
  have agree3: "\<forall>k. k \<noteq> ''page'' \<and> k \<noteq> ''page_size'' \<longrightarrow> map_of ?t' k = map_of ?t k"
    by simp
  have q': "py_int (dict_get ?t' ''page'' (JInt 1)) = Inr (if (3 :: int) \<le> 0 then 1 else 3)"
    by (simp add: dict_get_def py_int_def)
  have qs': "py_int (dict_get ?t' ''page_size'' (JInt 20)) =
      Inr (if max_results (config example_server) < 100 then max_results (config example_server) else 100)"
    by (simp add: dict_get_def py_int_def example_server_def)
  have has_text3: "truthy (dict_get ?t ''search_text'' JNull)"
    by (simp add: dict_get_def)
  note three = pagination_offset [OF msg_page_three_data q qs msg_page_three_capped_data agree3 q' qs', of "[]"]
  have m: "max_results (config example_server) = 50"
    by (simp add: example_server_def)
  from low has_text so name wanted epics
  have l: "snd (search_issues example_server msg_page_low []) =
      [SearchIssues (search_jql (dict_get ?d ''title_only'' (JBool False)) (dict_get ?d ''search_text'' JNull)) 0 50]
    \<and> snd (get_my_issues example_server msg_page_low []) =
      [SearchIssues (my_issues_jql (dict_get ?d ''status'' JNull) (dict_get ?d ''project'' JNull)
                       (dict_get ?d ''sort_by'' (JStr ''updated'')) ''DESC'') 0 50]
    \<and> snd (get_epic_with_subtasks example_server msg_page_low []) =
      [SearchIssues (epic_jql (dict_get ?d ''epic_name'' JNull)) 0 5,
       SearchIssues (subtasks_jql example_issue) 0 50]
    \<and> search_issues example_server msg_page_one [] = search_issues example_server msg_page_low []
    \<and> get_my_issues example_server msg_page_one [] = get_my_issues example_server msg_page_low []
    \<and> get_epic_with_subtasks example_server msg_page_one [] =
        get_epic_with_subtasks example_server msg_page_low []"
    by (simp add: m Let_def)
  from three has_text3
  have t: "snd (search_issues example_server msg_page_three []) =
      [SearchIssues (search_jql (dict_get ?t ''title_only'' (JBool False)) (dict_get ?t ''search_text'' JNull)) 100 50]
    \<and> search_issues example_server msg_page_three_capped [] = search_issues example_server msg_page_three []"
    by (simp add: m Let_def)
  from l t show ?thesis
    by (simp add: dict_get_def search_jql_def my_issues_jql_def sort_fields_def py_str_def)
qed

subsection \<open>A page size that is zero or negative\<close>

lemma search_issues_missing_text:
  assumes "py_get message ''data'' (JDict []) = Inr (JDict d)"
    and "py_int (dict_get d ''page'' (JInt 1)) = Inr p"
    and "py_int (dict_get d ''page_size'' (JInt 20)) = Inr ps"
    and "\<not> truthy (dict_get d ''search_text'' JNull)"
  shows "search_issues srv message calls = (Inr (error_envelope ''Missing search text''), calls)"
  using assms by (simp add: search_issues_def io_defs py_get_JDict Let_def)

lemma get_epic_with_subtasks_missing_name:
  assumes "py_get message ''data'' (JDict []) = Inr (JDict d)"
    and "py_int (dict_get d ''page'' (JInt 1)) = Inr p"
    and "py_int (dict_get d ''page_size'' (JInt 20)) = Inr ps"
    and "\<not> truthy (dict_get d ''epic_name'' JNull)"
  shows "get_epic_with_subtasks srv message calls = (Inr (error_envelope ''Missing epic name''), calls)"
  using assms by (simp add: get_epic_with_subtasks_def io_defs py_get_JDict Let_def)

lemma get_my_issues_bad_order:
  assumes "py_get message ''data'' (JDict []) = Inr (JDict d)"
    and "py_int (dict_get d ''page'' (JInt 1)) = Inr p"
    and "py_int (dict_get d ''page_size'' (JInt 20)) = Inr ps"
    and "py_upper (dict_get d ''sort_order'' (JStr ''DESC'')) = Inl e"
  shows "get_my_issues srv message calls = on_error e calls"
  using assms by (simp add: get_my_issues_def io_defs py_get_JDict Let_def)

lemma search_issues_total:
  assumes "py_get message ''data'' (JDict []) = Inr (JDict d)"
    and "py_int (dict_get d ''page'' (JInt 1)) = Inr p"
    and "py_int (dict_get d ''page_size'' (JInt 20)) = Inr ps"
  shows "\<exists>r calls'. search_issues srv message calls = (Inr r, calls')"
proof (cases "truthy (dict_get d ''search_text'' JNull)")
  case True
  show ?thesis
    using on_error_envelope
    by (simp add: search_issues_run [OF assms True] Let_def split: sum.splits) blast
next
  case False
  show ?thesis
    by (simp add: search_issues_missing_text [OF assms False])
qed

lemma get_epic_with_subtasks_total:
  assumes "py_get message ''data'' (JDict []) = Inr (JDict d)"
    and "py_int (dict_get d ''page'' (JInt 1)) = Inr p"
    and "py_int (dict_get d ''page_size'' (JInt 20)) = Inr ps"
  shows "\<exists>r calls'. get_epic_with_subtasks srv message calls = (Inr r, calls')"
proof (cases "truthy (dict_get d ''epic_name'' JNull)")
  case True
  show ?thesis
    using on_error_envelope
    by (simp add: get_epic_with_subtasks_run [OF assms True] Let_def split: sum.splits list.splits) blast
next
  case False
  show ?thesis
    by (simp add: get_epic_with_subtasks_missing_name [OF assms False])
qed

lemma get_my_issues_total:
  assumes "py_get message ''data'' (JDict []) = Inr (JDict d)"
    and "py_int (dict_get d ''page'' (JInt 1)) = Inr p"
    and "py_int (dict_get d ''page_size'' (JInt 20)) = Inr ps"
  shows "\<exists>r calls'. get_my_issues srv message calls = (Inr r, calls')"
proof (cases "py_upper (dict_get d ''sort_order'' (JStr ''DESC''))")
  case (Inr so)
  show ?thesis
    using on_error_envelope
    by (simp add: get_my_issues_run [OF assms Inr] Let_def split: sum.splits) blast
next
  case (Inl e)
  show ?thesis
    using on_error_envelope [of e calls]
    by (auto simp: get_my_issues_bad_order [OF assms Inl])
qed

lemma search_issues_zero:
  assumes "py_get message ''data'' (JDict []) = Inr (JDict d)"
    and "py_int (dict_get d ''page'' (JInt 1)) = Inr p"
    and "py_int (dict_get d ''page_size'' (JInt 20)) = Inr ps"
    and "min (max_results (config srv)) ps = 0"
  shows "\<exists>m calls'. search_issues srv message calls = (Inr (error_envelope m), calls')"
proof (cases "truthy (dict_get d ''search_text'' JNull)")
  case True
  show ?thesis
    using on_error_envelope assms(4)
    by (simp add: search_issues_run [OF assms(1-3) True] Let_def split: sum.splits) blast
next
  case False
  show ?thesis
    by (auto simp: search_issues_missing_text [OF assms(1-3) False])
qed

lemma get_epic_with_subtasks_zero:
  assumes "py_get message ''data'' (JDict []) = Inr (JDict d)"
    and "py_int (dict_get d ''page'' (JInt 1)) = Inr p"
    and "py_int (dict_get d ''page_size'' (JInt 20)) = Inr ps"
    and "min (max_results (config srv)) ps = 0"
  shows "\<exists>m calls'. get_epic_with_subtasks srv message calls = (Inr (error_envelope m), calls')"
proof (cases "truthy (dict_get d ''epic_name'' JNull)")
  case True
  show ?thesis
    using on_error_envelope assms(4)
    by (simp add: get_epic_with_subtasks_run [OF assms(1-3) True] Let_def
        split: sum.splits list.splits) blast
next
  case False
  show ?thesis
    by (auto simp: get_epic_with_subtasks_missing_name [OF assms(1-3) False])
qed

lemma get_my_issues_zero:
  assumes "py_get message ''data'' (JDict []) = Inr (JDict d)"
    and "py_int (dict_get d ''page'' (JInt 1)) = Inr p"
    and "py_int (dict_get d ''page_size'' (JInt 20)) = Inr ps"
    and "min (max_results (config srv)) ps = 0"
  shows "\<exists>m calls'. get_my_issues srv message calls = (Inr (error_envelope m), calls')"
proof (cases "py_upper (dict_get d ''sort_order'' (JStr ''DESC''))")
  case (Inr so)
  show ?thesis
    using on_error_envelope assms(4)
    by (simp add: get_my_issues_run [OF assms(1-3) Inr] Let_def split: sum.splits) blast
next
  case (Inl e)
  show ?thesis
    using on_error_envelope [of e calls]
    by (auto simp: get_my_issues_bad_order [OF assms(1-3) Inl])
qed

lemma search_issues_zero_division:
  assumes "py_get message ''data'' (JDict []) = Inr (JDict d)"
    and "py_int (dict_get d ''page'' (JInt 1)) = Inr p"
    and "py_int (dict_get d ''page_size'' (JInt 20)) = Inr ps"
    and "truthy (dict_get d ''search_text'' JNull)"
    and "min (max_results (config srv)) ps = 0"
    and "jira_search_issues (jira srv) calls
           (search_jql (dict_get d ''title_only'' (JBool False)) (dict_get d ''search_text'' JNull)) 0 0 = Inr found"
  shows "search_issues srv message calls =
     (Inr (error_envelope ''An unexpected error occurred''),
      calls @ [SearchIssues (search_jql (dict_get d ''title_only'' (JBool False))
                               (dict_get d ''search_text'' JNull)) 0 0])"
  using assms(5,6) by (simp add: search_issues_run [OF assms(1-4)] Let_def)

lemma get_my_issues_zero_division:
  assumes "py_get message ''data'' (JDict []) = Inr (JDict d)"
    and "py_int (dict_get d ''page'' (JInt 1)) = Inr p"
    and "py_int (dict_get d ''page_size'' (JInt 20)) = Inr ps"
    and "py_upper (dict_get d ''sort_order'' (JStr ''DESC'')) = Inr so"
    and "min (max_results (config srv)) ps = 0"
    and "jira_search_issues (jira srv) calls
           (my_issues_jql (dict_get d ''status'' JNull) (dict_get d ''project'' JNull)
              (dict_get d ''sort_by'' (JStr ''updated'')) so) 0 0 = Inr found"
  shows "get_my_issues srv message calls =
     (Inr (error_envelope ''An unexpected error occurred''),
      calls @ [SearchIssues (my_issues_jql (dict_get d ''status'' JNull) (dict_get d ''project'' JNull)
                               (dict_get d ''sort_by'' (JStr ''updated'')) so) 0 0])"
  using assms(5,6) by (simp add: get_my_issues_run [OF assms(1-4)] Let_def)

lemma get_epic_with_subtasks_zero_division:
  assumes "py_get message ''data'' (JDict []) = Inr (JDict d)"
    and "py_int (dict_get d ''page'' (JInt 1)) = Inr p"
    and "py_int (dict_get d ''page_size'' (JInt 20)) = Inr ps"
    and "truthy (dict_get d ''epic_name'' JNull)"
    and "min (max_results (config srv)) ps = 0"
    and "py_lower (dict_get d ''epic_name'' JNull) = Inr wanted"
    and "jira_search_issues (jira srv) calls (epic_jql (dict_get d ''epic_name'' JNull)) 0 5 = Inr epics"
    and "rl_issues epics = e # es"
    and "jira_search_issues (jira srv) (calls @ [SearchIssues (epic_jql (dict_get d ''epic_name'' JNull)) 0 5])
           (subtasks_jql (pick_epic (e # es) wanted e)) 0 0 = Inr subtasks"
  shows "get_epic_with_subtasks srv message calls =
     (Inr (error_envelope ''An unexpected error occurred''),
      calls @ [SearchIssues (epic_jql (dict_get d ''epic_name'' JNull)) 0 5,
               SearchIssues (subtasks_jql (pick_epic (e # es) wanted e)) 0 0])"
  using assms(5-9) by (simp add: get_epic_with_subtasks_run [OF assms(1-4)] Let_def)

text \<open>
  Claim C10. For a request whose data is a dict and whose \<open>page\<close> and \<open>page_size\<close> are
  integers, each of \<open>search_issues\<close>, \<open>get_epic_with_subtasks\<close> and \<open>get_my_issues\<close> returns an
  envelope: none of them raises. The page size has no lower bound: a requested page size
  that is not above the configured maximum, zero and negative ones included, is the page
  size of the search call. When the requested page size is 0 (and the configured maximum
  is not negative, so that the page size stays 0), each of the three handlers returns an
  error envelope; when the search itself succeeds, the division by the page size raises
  \<open>ZeroDivisionError\<close>, the last \<open>except\<close> clause catches it and the message is
  \<open>An unexpected error occurred\<close>.
\<close>

theorem page_size_not_clamped_below:
  assumes "py_get message ''data'' (JDict []) = Inr (JDict d)"
    and "py_int (dict_get d ''page'' (JInt 1)) = Inr p"
    and "py_int (dict_get d ''page_size'' (JInt 20)) = Inr ps"
  shows "((\<exists>r calls'. search_issues srv message calls = (Inr r, calls') \<and> envelope_ok r)
        \<and> (\<exists>r calls'. get_epic_with_subtasks srv message calls = (Inr r, calls') \<and> envelope_ok r)
        \<and> (\<exists>r calls'. get_my_issues srv message calls = (Inr r, calls') \<and> envelope_ok r))
     \<and> (ps \<le> max_results (config srv) \<longrightarrow>
          (truthy (dict_get d ''search_text'' JNull) \<longrightarrow>
             snd (search_issues srv message calls) = calls @
               [SearchIssues (search_jql (dict_get d ''title_only'' (JBool False))
                                (dict_get d ''search_text'' JNull)) ((max 1 p - 1) * ps) ps])
        \<and> (py_upper (dict_get d ''sort_order'' (JStr ''DESC'')) = Inr so \<longrightarrow>
             snd (get_my_issues srv message calls) = calls @
               [SearchIssues (my_issues_jql (dict_get d ''status'' JNull) (dict_get d ''project'' JNull)
                                (dict_get d ''sort_by'' (JStr ''updated'')) so) ((max 1 p - 1) * ps) ps])
        \<and> (truthy (dict_get d ''epic_name'' JNull)
             \<and> py_lower (dict_get d ''epic_name'' JNull) = Inr wanted
             \<and> jira_search_issues (jira srv) calls (epic_jql (dict_get d ''epic_name'' JNull)) 0 5 = Inr epics
             \<and> rl_issues epics = e # es \<longrightarrow>
             snd (get_epic_with_subtasks srv message calls) = calls @
               [SearchIssues (epic_jql (dict_get d ''epic_name'' JNull)) 0 5,
                SearchIssues (subtasks_jql (pick_epic (e # es) wanted e)) ((max 1 p - 1) * ps) ps]))
     \<and> (ps = 0 \<and> 0 \<le> max_results (config srv) \<longrightarrow>
          (\<exists>m calls'. search_issues srv message calls = (Inr (error_envelope m), calls'))
        \<and> (\<exists>m calls'. get_epic_with_subtasks srv message calls = (Inr (error_envelope m), calls'))
        \<and> (\<exists>m calls'. get_my_issues srv message calls = (Inr (error_envelope m), calls'))
        \<and> (truthy (dict_get d ''search_text'' JNull)
             \<and> jira_search_issues (jira srv) calls
                  (search_jql (dict_get d ''title_only'' (JBool False)) (dict_get d ''search_text'' JNull)) 0 0
                = Inr found \<longrightarrow>
             search_issues srv message calls =
               (Inr (error_envelope ''An unexpected error occurred''),
                calls @ [SearchIssues (search_jql (dict_get d ''title_only'' (JBool False))
                                         (dict_get d ''search_text'' JNull)) 0 0]))
        \<and> (py_upper (dict_get d ''sort_order'' (JStr ''DESC'')) = Inr so
             \<and> jira_search_issues (jira srv) calls
                  (my_issues_jql (dict_get d ''status'' JNull) (dict_get d ''project'' JNull)
                     (dict_get d ''sort_by'' (JStr ''updated'')) so) 0 0 = Inr mine \<longrightarrow>
             get_my_issues srv message calls =
               (Inr (error_envelope ''An unexpected error occurred''),
                calls @ [SearchIssues (my_issues_jql (dict_get d ''status'' JNull) (dict_get d ''project'' JNull)
                                         (dict_get d ''sort_by'' (JStr ''updated'')) so) 0 0]))
        \<and> (truthy (dict_get d ''epic_name'' JNull)
             \<and> py_lower (dict_get d ''epic_name'' JNull) = Inr wanted
             \<and> jira_search_issues (jira srv) calls (epic_jql (dict_get d ''epic_name'' JNull)) 0 5 = Inr epics
             \<and> rl_issues epics = e # es
             \<and> jira_search_issues (jira srv)
                  (calls @ [SearchIssues (epic_jql (dict_get d ''epic_name'' JNull)) 0 5])
                  (subtasks_jql (pick_epic (e # es) wanted e)) 0 0 = Inr subtasks \<longrightarrow>
             get_epic_with_subtasks srv message calls =
               (Inr (error_envelope ''An unexpected error occurred''),
                calls @ [SearchIssues (epic_jql (dict_get d ''epic_name'' JNull)) 0 5,
                         SearchIssues (subtasks_jql (pick_epic (e # es) wanted e)) 0 0])))
     \<and> floordiv (tot + 0 - 1) 0 = Inl (ZeroDivisionError ''integer division or modulo by zero'')
     \<and> on_error (ZeroDivisionError ''integer division or modulo by zero'') calls =
         (Inr (error_envelope ''An unexpected error occurred''), calls)"
proof -
  have total: "(\<exists>r calls'. search_issues srv message calls = (Inr r, calls') \<and> envelope_ok r)
        \<and> (\<exists>r calls'. get_epic_with_subtasks srv message calls = (Inr r, calls') \<and> envelope_ok r)
        \<and> (\<exists>r calls'. get_my_issues srv message calls = (Inr r, calls') \<and> envelope_ok r)"
    using search_issues_total [OF assms, of srv calls] search_issues_ok [of srv message calls]
      get_epic_with_subtasks_total [OF assms, of srv calls] get_epic_with_subtasks_ok [of srv message calls]
      get_my_issues_total [OF assms, of srv calls] get_my_issues_ok [of srv message calls]
    by blast
  have below: "ps \<le> max_results (config srv) \<longrightarrow>
          (truthy (dict_get d ''search_text'' JNull) \<longrightarrow>
             snd (search_issues srv message calls) = calls @
               [SearchIssues (search_jql (dict_get d ''title_only'' (JBool False))
                                (dict_get d ''search_text'' JNull)) ((max 1 p - 1) * ps) ps])
        \<and> (py_upper (dict_get d ''sort_order'' (JStr ''DESC'')) = Inr so \<longrightarrow>
             snd (get_my_issues srv message calls) = calls @
               [SearchIssues (my_issues_jql (dict_get d ''status'' JNull) (dict_get d ''project'' JNull)
                                (dict_get d ''sort_by'' (JStr ''updated'')) so) ((max 1 p - 1) * ps) ps])
        \<and> (truthy (dict_get d ''epic_name'' JNull)
             \<and> py_lower (dict_get d ''epic_name'' JNull) = Inr wanted
             \<and> jira_search_issues (jira srv) calls (epic_jql (dict_get d ''epic_name'' JNull)) 0 5 = Inr epics
             \<and> rl_issues epics = e # es \<longrightarrow>
             snd (get_epic_with_subtasks srv message calls) = calls @
               [SearchIssues (epic_jql (dict_get d ''epic_name'' JNull)) 0 5,
                SearchIssues (subtasks_jql (pick_epic (e # es) wanted e)) ((max 1 p - 1) * ps) ps])"
  proof
    assume "ps \<le> max_results (config srv)"
    then have m: "min (max_results (config srv)) ps = ps"
      by simp
    show "(truthy (dict_get d ''search_text'' JNull) \<longrightarrow>
             snd (search_issues srv message calls) = calls @
               [SearchIssues (search_jql (dict_get d ''title_only'' (JBool False))
                                (dict_get d ''search_text'' JNull)) ((max 1 p - 1) * ps) ps])
        \<and> (py_upper (dict_get d ''sort_order'' (JStr ''DESC'')) = Inr so \<longrightarrow>
             snd (get_my_issues srv message calls) = calls @
               [SearchIssues (my_issues_jql (dict_get d ''status'' JNull) (dict_get d ''project'' JNull)
                                (dict_get d ''sort_by'' (JStr ''updated'')) so) ((max 1 p - 1) * ps) ps])
        \<and> (truthy (dict_get d ''epic_name'' JNull)
             \<and> py_lower (dict_get d ''epic_name'' JNull) = Inr wanted
             \<and> jira_search_issues (jira srv) calls (epic_jql (dict_get d ''epic_name'' JNull)) 0 5 = Inr epics
             \<and> rl_issues epics = e # es \<longrightarrow>
             snd (get_epic_with_subtasks srv message calls) = calls @
               [SearchIssues (epic_jql (dict_get d ''epic_name'' JNull)) 0 5,
                SearchIssues (subtasks_jql (pick_epic (e # es) wanted e)) ((max 1 p - 1) * ps) ps])"
      using search_issues_calls [OF assms, of srv calls] get_my_issues_calls [OF assms, of so srv calls]
        get_epic_with_subtasks_calls [OF assms, of wanted srv calls epics e es]
      unfolding m by blast
  qed
  have zero: "ps = 0 \<and> 0 \<le> max_results (config srv) \<longrightarrow>
          (\<exists>m calls'. search_issues srv message calls = (Inr (error_envelope m), calls'))
        \<and> (\<exists>m calls'. get_epic_with_subtasks srv message calls = (Inr (error_envelope m), calls'))
        \<and> (\<exists>m calls'. get_my_issues srv message calls = (Inr (error_envelope m), calls'))
        \<and> (truthy (dict_get d ''search_text'' JNull)
             \<and> jira_search_issues (jira srv) calls
                  (search_jql (dict_get d ''title_only'' (JBool False)) (dict_get d ''search_text'' JNull)) 0 0
                = Inr found \<longrightarrow>
             search_issues srv message calls =
               (Inr (error_envelope ''An unexpected error occurred''),
                calls @ [SearchIssues (search_jql (dict_get d ''title_only'' (JBool False))
                                         (dict_get d ''search_text'' JNull)) 0 0]))
        \<and> (py_upper (dict_get d ''sort_order'' (JStr ''DESC'')) = Inr so
             \<and> jira_search_issues (jira srv) calls
                  (my_issues_jql (dict_get d ''status'' JNull) (dict_get d ''project'' JNull)
                     (dict_get d ''sort_by'' (JStr ''updated'')) so) 0 0 = Inr mine \<longrightarrow>
             get_my_issues srv message calls =
               (Inr (error_envelope ''An unexpected error occurred''),
                calls @ [SearchIssues (my_issues_jql (dict_get d ''status'' JNull) (dict_get d ''project'' JNull)
                                         (dict_get d ''sort_by'' (JStr ''updated'')) so) 0 0]))
        \<and> (truthy (dict_get d ''epic_name'' JNull)
             \<and> py_lower (dict_get d ''epic_name'' JNull) = Inr wanted
             \<and> jira_search_issues (jira srv) calls (epic_jql (dict_get d ''epic_name'' JNull)) 0 5 = Inr epics
             \<and> rl_issues epics = e # es
             \<and> jira_search_issues (jira srv)
                  (calls @ [SearchIssues (epic_jql (dict_get d ''epic_name'' JNull)) 0 5])
                  (subtasks_jql (pick_epic (e # es) wanted e)) 0 0 = Inr subtasks \<longrightarrow>
             get_epic_with_subtasks srv message calls =
               (Inr (error_envelope ''An unexpected error occurred''),
                calls @ [SearchIssues (epic_jql (dict_get d ''epic_name'' JNull)) 0 5,
                         SearchIssues (subtasks_jql (pick_epic (e # es) wanted e)) 0 0]))"
  proof
    assume "ps = 0 \<and> 0 \<le> max_results (config srv)"
    then have m: "min (max_results (config srv)) ps = 0"
      by simp
    show "(\<exists>m calls'. search_issues srv message calls = (Inr (error_envelope m), calls'))
        \<and> (\<exists>m calls'. get_epic_with_subtasks srv message calls = (Inr (error_envelope m), calls'))
        \<and> (\<exists>m calls'. get_my_issues srv message calls = (Inr (error_envelope m), calls'))
        \<and> (truthy (dict_get d ''search_text'' JNull)
             \<and> jira_search_issues (jira srv) calls
                  (search_jql (dict_get d ''title_only'' (JBool False)) (dict_get d ''search_text'' JNull)) 0 0
                = Inr found \<longrightarrow>
             search_issues srv message calls =
               (Inr (error_envelope ''An unexpected error occurred''),
                calls @ [SearchIssues (search_jql (dict_get d ''title_only'' (JBool False))
                                         (dict_get d ''search_text'' JNull)) 0 0]))
        \<and> (py_upper (dict_get d ''sort_order'' (JStr ''DESC'')) = Inr so
             \<and> jira_search_issues (jira srv) calls
                  (my_issues_jql (dict_get d ''status'' JNull) (dict_get d ''project'' JNull)
                     (dict_get d ''sort_by'' (JStr ''updated'')) so) 0 0 = Inr mine \<longrightarrow>
             get_my_issues srv message calls =
               (Inr (error_envelope ''An unexpected error occurred''),
                calls @ [SearchIssues (my_issues_jql (dict_get d ''status'' JNull) (dict_get d ''project'' JNull)
                                         (dict_get d ''sort_by'' (JStr ''updated'')) so) 0 0]))
        \<and> (truthy (dict_get d ''epic_name'' JNull)
             \<and> py_lower (dict_get d ''epic_name'' JNull) = Inr wanted
             \<and> jira_search_issues (jira srv) calls (epic_jql (dict_get d ''epic_name'' JNull)) 0 5 = Inr epics
             \<and> rl_issues epics = e # es
             \<and> jira_search_issues (jira srv)
                  (calls @ [SearchIssues (epic_jql (dict_get d ''epic_name'' JNull)) 0 5])
                  (subtasks_jql (pick_epic (e # es) wanted e)) 0 0 = Inr subtasks \<longrightarrow>
             get_epic_with_subtasks srv message calls =
               (Inr (error_envelope ''An unexpected error occurred''),
                calls @ [SearchIssues (epic_jql (dict_get d ''epic_name'' JNull)) 0 5,
                         SearchIssues (subtasks_jql (pick_epic (e # es) wanted e)) 0 0]))"
      using search_issues_zero [OF assms m, of calls] get_epic_with_subtasks_zero [OF assms m, of calls]
        get_my_issues_zero [OF assms m, of calls]
        search_issues_zero_division [OF assms _ m, of calls found]
        get_my_issues_zero_division [OF assms _ m, of so calls mine]
        get_epic_with_subtasks_zero_division [OF assms _ m, of wanted calls epics e es subtasks]
      by blast
  qed
  have division: "floordiv (tot + 0 - 1) 0 = Inl (ZeroDivisionError ''integer division or modulo by zero'')
     \<and> on_error (ZeroDivisionError ''integer division or modulo by zero'') calls =
         (Inr (error_envelope ''An unexpected error occurred''), calls)"
    by (simp add: floordiv_def io_return_def)
  from total below zero division show ?thesis
    by blast
qed

lemma msg_page_size_zero_data:
  "py_get msg_page_size_zero ''data'' (JDict []) =
     Inr (JDict [(''search_text'', JStr ''refund''), (''epic_name'', JStr ''payments''),
                 (''page_size'', JInt 0)])"
  by (simp add: msg_page_size_zero_def py_get_def dict_get_def)

lemma msg_page_size_negative_data:
  "py_get msg_page_size_negative ''data'' (JDict []) =
     Inr (JDict [(''search_text'', JStr ''refund''), (''epic_name'', JStr ''payments''),
                 (''page_size'', JInt (- 3))])"
  by (simp add: msg_page_size_negative_def py_get_def dict_get_def)

lemma example_search:
  "jira_search_issues (jira example_server) calls jql start_at max_res =
     Inr \<lparr>rl_issues = [example_issue], rl_total = 10\<rparr>"
  by (simp add: example_server_def example_jira_def)

lemma example_max_results: "max_results (config example_server) = 50"
  by (simp add: example_server_def)

theorem page_size_not_clamped_below_witness:
  "search_issues example_server msg_page_size_zero [] =
     (Inr (error_envelope ''An unexpected error occurred''),
      [SearchIssues (''(summary ~ '' @ quoted ''refund'' @ '' OR description ~ '' @ quoted ''refund''
                     @ '') AND issuetype != Epic'') 0 0])
   \<and> get_my_issues example_server msg_page_size_zero [] =
     (Inr (error_envelope ''An unexpected error occurred''),
      [SearchIssues ''assignee = currentUser() ORDER BY updated DESC'' 0 0])
   \<and> get_epic_with_subtasks example_server msg_page_size_zero [] =
     (Inr (error_envelope ''An unexpected error occurred''),
      [SearchIssues (epic_jql (JStr ''payments'')) 0 5, SearchIssues (subtasks_jql example_issue) 0 0])
   \<and> snd (search_issues example_server msg_page_size_negative []) =
      [SearchIssues (''(summary ~ '' @ quoted ''refund'' @ '' OR description ~ '' @ quoted ''refund''
                     @ '') AND issuetype != Epic'') 0 (- 3)]"
proof -
  let ?d = "[(''search_text'', JStr ''refund''), (''epic_name'', JStr ''payments''), (''page_size'', JInt 0)]"
  have p: "py_int (dict_get ?d ''page'' (JInt 1)) = Inr 1"
    by (simp add: dict_get_def py_int_def)
  have ps: "py_int (dict_get ?d ''page_size'' (JInt 20)) = Inr 0"
    by (simp add: dict_get_def py_int_def)
  have has_text: "truthy (dict_get ?d ''search_text'' JNull)"
    by (simp add: dict_get_def)
  have so: "py_upper (dict_get ?d ''sort_order'' (JStr ''DESC'')) = Inr ''DESC''"
    by (simp add: dict_get_def py_upper_def upper_DESC)
  have name: "truthy (dict_get ?d ''epic_name'' JNull)"
    by (simp add: dict_get_def)
  have wanted: "py_lower (dict_get ?d ''epic_name'' JNull) = Inr ''payments''"
    by (simp add: dict_get_def py_lower_def lower_payments)
  have first: "rl_issues \<lparr>rl_issues = [example_issue], rl_total = 10\<rparr> = example_issue # []"
    by simp
  have sel: "pick_epic [example_issue] ''payments'' example_issue = example_issue"
    by simp
  note zero = page_size_not_clamped_below [where so = "''DESC''" and wanted = "''payments''"
      and epics = "\<lparr>rl_issues = [example_issue], rl_total = 10\<rparr>" and e = example_issue and es = "[]"
      and found = "\<lparr>rl_issues = [example_issue], rl_total = 10\<rparr>"
      and mine = "\<lparr>rl_issues = [example_issue], rl_total = 10\<rparr>"
      and subtasks = "\<lparr>rl_issues = [example_issue], rl_total = 10\<rparr>"
      and srv = example_server and calls = "[]",
      OF msg_page_size_zero_data p ps]
  from zero has_text so name wanted first
  have z: "search_issues example_server msg_page_size_zero [] =
     (Inr (error_envelope ''An unexpected error occurred''),
      [SearchIssues (search_jql (dict_get ?d ''title_only'' (JBool False)) (dict_get ?d ''search_text'' JNull)) 0 0])
   \<and> get_my_issues example_server msg_page_size_zero [] =
     (Inr (error_envelope ''An unexpected error occurred''),
      [SearchIssues (my_issues_jql (dict_get ?d ''status'' JNull) (dict_get ?d ''project'' JNull)
                       (dict_get ?d ''sort_by'' (JStr ''updated'')) ''DESC'') 0 0])
   \<and> get_epic_with_subtasks example_server msg_page_size_zero [] =
     (Inr (error_envelope ''An unexpected error occurred''),
      [SearchIssues (epic_jql (dict_get ?d ''epic_name'' JNull)) 0 5,
       SearchIssues (subtasks_jql example_issue) 0 0])"
    by (simp add: example_search example_max_results)
  let ?n = "[(''search_text'', JStr ''refund''), (''epic_name'', JStr ''payments''), (''page_size'', JInt (- 3))]"
  have q: "py_int (dict_get ?n ''page'' (JInt 1)) = Inr 1"
    by (simp add: dict_get_def py_int_def)
  have qs: "py_int (dict_get ?n ''page_size'' (JInt 20)) = Inr (- 3)"
    by (simp add: dict_get_def py_int_def)
  have has_text': "truthy (dict_get ?n ''search_text'' JNull)"
    by (simp add: dict_get_def)
  note negative = page_size_not_clamped_below [where srv = example_server and calls = "[]",
      OF msg_page_size_negative_data q qs]
  from negative has_text'
  have n: "snd (search_issues example_server msg_page_size_negative []) =
      [SearchIssues (search_jql (dict_get ?n ''title_only'' (JBool False)) (dict_get ?n ''search_text'' JNull)) 0 (- 3)]"
    by (simp add: example_max_results)
  from z n show ?thesis
    by (simp add: dict_get_def search_jql_def my_issues_jql_def sort_fields_def py_str_def)
qed

subsection \<open>The pagination block\<close>

lemma ceil_div:
  fixes t s :: int
  assumes "0 < s"
  shows "(t + s - 1) div s = \<lceil>real_of_int t / real_of_int s\<rceil>"
proof -
  define z where "z = (t + s - 1) div s"
  define m where "m = (t + s - 1) mod s"
  have eq: "t + s - 1 = z * s + m"
    by (simp add: z_def m_def)
  have m: "0 \<le> m" "m < s"
    using assms by (simp_all add: m_def)
  have le: "t \<le> z * s"
    using eq m by linarith
  have lt: "(z - 1) * s < t"
    using eq m by (simp add: algebra_simps)
  have r1: "real_of_int t \<le> real_of_int z * real_of_int s"
    using le by (metis of_int_le_iff of_int_mult)
  have r2: "(real_of_int z - 1) * real_of_int s < real_of_int t"
    using lt by (metis of_int_less_iff of_int_mult of_int_diff of_int_1)
  have "\<lceil>real_of_int t / real_of_int s\<rceil> = z"
  proof (rule ceiling_unique)
    show "real_of_int z - 1 < real_of_int t / real_of_int s"
      using assms r2 by (simp add: pos_less_divide_eq)
    show "real_of_int t / real_of_int s \<le> real_of_int z"
      using assms r1 by (simp add: pos_divide_le_eq)
  qed
  then show ?thesis
    by (simp add: z_def)
qed

lemma status_of_error: "status_of (error_envelope m) = Some (JStr ''error'')"
  by (simp add: status_of_def error_envelope_def)

lemma on_error_status:
  "on_error e calls = (Inr r, calls') \<Longrightarrow> status_of r = Some (JStr ''error'')"
  using on_error_envelope [of e calls] by (auto simp: status_of_error)

lemma search_issues_success:
  assumes "search_issues srv message calls = (Inr r, calls')"
    and "status_of r = Some (JStr ''success'')"
  shows "\<exists>tot p ps rows. r = success_data (JDict
           [(''issues'', JList rows),
            (''pagination'', pagination tot (max 1 p) (min (max_results (config srv)) ps)
               ((tot + min (max_results (config srv)) ps - 1) div min (max_results (config srv)) ps))])
         \<and> min (max_results (config srv)) ps \<noteq> 0"
  using assms
  by (auto simp: search_issues_def io_defs Let_def floordiv_def status_of_error
      split: sum.splits prod.splits if_splits dest: on_error_status)

lemma get_my_issues_success:
  assumes "get_my_issues srv message calls = (Inr r, calls')"
    and "status_of r = Some (JStr ''success'')"
  shows "\<exists>tot p ps rows. r = success_data (JDict
           [(''issues'', JList rows),
            (''pagination'', pagination tot (max 1 p) (min (max_results (config srv)) ps)
               ((tot + min (max_results (config srv)) ps - 1) div min (max_results (config srv)) ps))])
         \<and> min (max_results (config srv)) ps \<noteq> 0"
  using assms
  by (auto simp: get_my_issues_def io_defs Let_def floordiv_def status_of_error
      split: sum.splits prod.splits if_splits dest: on_error_status)

lemma get_epic_with_subtasks_success:
  assumes "get_epic_with_subtasks srv message calls = (Inr r, calls')"
    and "status_of r = Some (JStr ''success'')"
  shows "\<exists>tot p ps rows epic. r = success_data (JDict
           [(''epic'', epic),
            (''subtasks'', JDict
               [(''issues'', JList rows),
                (''pagination'', pagination tot (max 1 p) (min (max_results (config srv)) ps)
                   ((tot + min (max_results (config srv)) ps - 1) div min (max_results (config srv)) ps))])])
         \<and> min (max_results (config srv)) ps \<noteq> 0"
  using assms
  by (auto simp: get_epic_with_subtasks_def io_defs Let_def floordiv_def status_of_error
      split: sum.splits prod.splits if_splits list.splits dest: on_error_status) blast+

lemma pagination_of_list:
  "pagination_of (success_data (JDict [(''issues'', x), (''pagination'', b)])) = b"
  by (simp add: pagination_of_def success_data_def field_def has_field_def dict_get_def)

lemma pagination_of_epic:
  "pagination_of (success_data (JDict [(''epic'', e),
     (''subtasks'', JDict [(''issues'', x), (''pagination'', b)])])) = b"
  by (simp add: pagination_of_def success_data_def field_def has_field_def dict_get_def)

text \<open>
  Claim C3, amended. In every success response of \<open>search_issues\<close>,
  \<open>get_epic_with_subtasks\<close> and \<open>get_my_issues\<close> the pagination block has a page that is at
  least 1, a page size that is at most the configured maximum and is not 0, and
  \<open>total_pages = (total + page_size - 1) // page_size\<close>. When the page size is at least 1
  this is the ceiling of \<open>total / page_size\<close>. The page size has no lower bound, and for
  a negative page size \<open>total_pages\<close> need not be that ceiling.
\<close>

theorem pagination_block:
  assumes "search_issues srv message calls = (Inr r, calls')
           \<or> get_epic_with_subtasks srv message calls = (Inr r, calls')
           \<or> get_my_issues srv message calls = (Inr r, calls')"
    and "status_of r = Some (JStr ''success'')"
  shows "\<exists>tot page page_size total_pages.
           pagination_of r = pagination tot page page_size total_pages
           \<and> page_size \<le> max_results (config srv)
           \<and> page_size \<noteq> 0
           \<and> 1 \<le> page
           \<and> total_pages = (tot + page_size - 1) div page_size
           \<and> (1 \<le> page_size \<longrightarrow> total_pages = \<lceil>real_of_int tot / real_of_int page_size\<rceil>)"
proof -
  have "\<exists>tot p ps. pagination_of r = pagination tot (max 1 p) (min (max_results (config srv)) ps)
           ((tot + min (max_results (config srv)) ps - 1) div min (max_results (config srv)) ps)
         \<and> min (max_results (config srv)) ps \<noteq> 0"
    using assms(1)
  proof (elim disjE)
    assume "search_issues srv message calls = (Inr r, calls')"
    from search_issues_success [OF this assms(2)] show ?thesis
      by (elim exE conjE) (simp add: pagination_of_list; blast)
  next
    assume "get_epic_with_subtasks srv message calls = (Inr r, calls')"
    from get_epic_with_subtasks_success [OF this assms(2)] show ?thesis
      by (elim exE conjE) (simp add: pagination_of_epic; blast)
  next
    assume "get_my_issues srv message calls = (Inr r, calls')"
    from get_my_issues_success [OF this assms(2)] show ?thesis
      by (elim exE conjE) (simp add: pagination_of_list; blast)
  qed
  then obtain tot p ps where
    blk: "pagination_of r = pagination tot (max 1 p) (min (max_results (config srv)) ps)
           ((tot + min (max_results (config srv)) ps - 1) div min (max_results (config srv)) ps)"
    and nz: "min (max_results (config srv)) ps \<noteq> 0"
    by blast
  have c: "1 \<le> min (max_results (config srv)) ps \<longrightarrow>
      (tot + min (max_results (config srv)) ps - 1) div min (max_results (config srv)) ps
        = \<lceil>real_of_int tot / real_of_int (min (max_results (config srv)) ps)\<rceil>"
    using ceil_div [of "min (max_results (config srv)) ps" tot] by simp
  from blk nz c show ?thesis
    by (intro exI [of _ tot] exI [of _ "max 1 p"] exI [of _ "min (max_results (config srv)) ps"]
        exI [of _ "(tot + min (max_results (config srv)) ps - 1) div min (max_results (config srv)) ps"])
       simp
qed

lemma pagination_inject:
  "pagination tot page page_size total_pages = pagination tot' page' page_size' total_pages'
     \<longleftrightarrow> tot = tot' \<and> page = page' \<and> page_size = page_size' \<and> total_pages = total_pages'"
  by (auto simp: pagination_def)

lemma search_issues_page_low:
  "search_issues example_server msg_page_low [] =
     (Inr (success_data (JDict [(''issues'', JList [search_row example_issue]),
                                (''pagination'', pagination 10 1 50 1)])),
      [SearchIssues (''(summary ~ '' @ quoted ''refund'' @ '' OR description ~ '' @ quoted ''refund''
                     @ '') AND issuetype != Epic'') 0 50])"
proof -
  let ?d = "[(''search_text'', JStr ''refund''), (''epic_name'', JStr ''payments''),
             (''page'', JInt (- 2)), (''page_size'', JInt 100)]"
  have p: "py_int (dict_get ?d ''page'' (JInt 1)) = Inr (- 2)"
    by (simp add: dict_get_def py_int_def)
  have ps: "py_int (dict_get ?d ''page_size'' (JInt 20)) = Inr 100"
    by (simp add: dict_get_def py_int_def)
  have has_text: "truthy (dict_get ?d ''search_text'' JNull)"
    by (simp add: dict_get_def)
  show ?thesis
    by (simp add: search_issues_run [OF msg_page_low_data p ps has_text] example_search
        example_max_results Let_def dict_get_def search_jql_def py_str_def)
qed

theorem pagination_block_witness:
  "search_issues example_server msg_page_low [] =
     (Inr (success_data (JDict [(''issues'', JList [search_row example_issue]),
                                (''pagination'', pagination 10 1 50 1)])),
      [SearchIssues (''(summary ~ '' @ quoted ''refund'' @ '' OR description ~ '' @ quoted ''refund''
                     @ '') AND issuetype != Epic'') 0 50])
   \<and> (1 :: int) = \<lceil>real_of_int 10 / real_of_int 50\<rceil>"
proof -
  let ?r = "success_data (JDict [(''issues'', JList [search_row example_issue]),
                                 (''pagination'', pagination 10 1 50 1)])"
  have st: "status_of ?r = Some (JStr ''success'')"
    by (simp add: status_of_def success_data_def)
  from pagination_block [OF disjI1 [OF search_issues_page_low] st]
  obtain tot page page_size total_pages where
    blk: "pagination_of ?r = pagination tot page page_size total_pages"
    and c: "1 \<le> page_size \<longrightarrow> total_pages = \<lceil>real_of_int tot / real_of_int page_size\<rceil>"
    by blast
  from blk have "tot = 10 \<and> page_size = 50 \<and> total_pages = 1"
    by (simp add: pagination_of_list pagination_inject)
  with c have "(1 :: int) = \<lceil>real_of_int 10 / real_of_int 50\<rceil>"
    by simp
  with search_issues_page_low show ?thesis
    by blast
qed

text \<open>
  The claim as it was stated fails for a negative page size: with 10 results and the
  requested page size \<open>-3\<close> the response has \<open>total_pages = -2\<close>, and the ceiling of
  \<open>10 / -3\<close> is \<open>-3\<close>.
\<close>

theorem pagination_block_negative_page_size:
  "search_issues example_server msg_page_size_negative [] =
     (Inr (success_data (JDict [(''issues'', JList [search_row example_issue]),
                                (''pagination'', pagination 10 1 (- 3) (- 2))])),
      [SearchIssues (''(summary ~ '' @ quoted ''refund'' @ '' OR description ~ '' @ quoted ''refund''
                     @ '') AND issuetype != Epic'') 0 (- 3)])
   \<and> \<lceil>real_of_int 10 / real_of_int (- 3)\<rceil> = (- 3 :: int)"
proof -
  let ?n = "[(''search_text'', JStr ''refund''), (''epic_name'', JStr ''payments''), (''page_size'', JInt (- 3))]"
  have q: "py_int (dict_get ?n ''page'' (JInt 1)) = Inr 1"
    by (simp add: dict_get_def py_int_def)
  have qs: "py_int (dict_get ?n ''page_size'' (JInt 20)) = Inr (- 3)"
    by (simp add: dict_get_def py_int_def)
  have has_text: "truthy (dict_get ?n ''search_text'' JNull)"
    by (simp add: dict_get_def)
  have run: "search_issues example_server msg_page_size_negative [] =
     (Inr (success_data (JDict [(''issues'', JList [search_row example_issue]),
                                (''pagination'', pagination 10 1 (- 3) (- 2))])),
      [SearchIssues (''(summary ~ '' @ quoted ''refund'' @ '' OR description ~ '' @ quoted ''refund''
                     @ '') AND issuetype != Epic'') 0 (- 3)])"
    by (simp add: search_issues_run [OF msg_page_size_negative_data q qs has_text] example_search
        example_max_results Let_def dict_get_def search_jql_def py_str_def)
  have "\<lceil>real_of_int 10 / real_of_int (- 3)\<rceil> = (- 3 :: int)"
    unfolding ceiling_divide_eq_div by simp
  with run show ?thesis
    by blast
qed

end
